theory Spec2Isabelle
  imports Complex_Main
begin

section \<open>Numbers, errors and the library interface\<close>

text \<open>
  Python's \<open>float\<close> values are idealised as real numbers: every arithmetic operation of
  the source is read as the exact operation, and a float literal as the decimal fraction
  it denotes. Python's \<open>int\<close> values are \<open>int\<close>. Where an \<open>int\<close> flows into a float
  computation the conversion \<open>real_of_int\<close> is written out.
\<close>

text \<open>\<open>int(r)\<close> of a float truncates toward zero.\<close>

definition py_int :: "real \<Rightarrow> int" where
  "py_int r = (if 0 \<le> r then \<lfloor>r\<rfloor> else \<lceil>r\<rceil>)"

datatype py_error = ZeroDivisionError | AttributeError | pygame_error

text \<open>
  The methods of the source mutate their object in place, so an exception leaves the
  object in the state reached when it was raised. A call therefore either returns with
  the final state, or raises with the state at the point of the raise.
\<close>

datatype 'a result = Returned 'a | Raised py_error 'a

fun final :: "'a result \<Rightarrow> 'a" where
  "final (Returned s) = s"
| "final (Raised e s) = s"

fun returns :: "'a result \<Rightarrow> bool" where
  "returns (Returned s) = True"
| "returns (Raised e s) = False"

text \<open>
  The module \<open>random\<close> is a source of values outside the program. An operation receives
  a \<open>random_source\<close>: its \<open>n\<close>-th element answers the \<open>n\<close>-th call that the operation
  makes to the module, through the field named after the function called, applied to
  the arguments of the call.
\<close>

record random_sample =
  random_choice :: "int list \<Rightarrow> int"
  random_uniform :: "real \<Rightarrow> real \<Rightarrow> real"
  random_random :: real
  random_randint :: "int \<Rightarrow> int \<Rightarrow> int"

type_synonym random_source = "nat \<Rightarrow> random_sample"

text \<open>
  \<open>pygame.Rect\<close> stores integer coordinates; float arguments are truncated.
  \<open>colliderect\<close> and \<open>collidepoint\<close> follow the pygame library: rectangles of zero
  width or height collide with nothing, touching edges do not overlap, and a rectangle
  is true as a condition when both its width and height are nonzero.
\<close>

datatype Rect = Rect (rect_x: int) (rect_y: int) (rect_w: int) (rect_h: int)

definition pygame_Rect :: "real \<Rightarrow> real \<Rightarrow> real \<Rightarrow> real \<Rightarrow> Rect" where
  "pygame_Rect l t w h = Rect (py_int l) (py_int t) (py_int w) (py_int h)"

definition colliderect :: "Rect \<Rightarrow> Rect \<Rightarrow> bool" where
  "colliderect A B =
     (if rect_w A = 0 \<or> rect_h A = 0 \<or> rect_w B = 0 \<or> rect_h B = 0 then False
      else min (rect_x A) (rect_x A + rect_w A) < max (rect_x B) (rect_x B + rect_w B)
         \<and> min (rect_y A) (rect_y A + rect_h A) < max (rect_y B) (rect_y B + rect_h B)
         \<and> max (rect_x A) (rect_x A + rect_w A) > min (rect_x B) (rect_x B + rect_w B)
         \<and> max (rect_y A) (rect_y A + rect_h A) > min (rect_y B) (rect_y B + rect_h B))"

definition collidepoint :: "Rect \<Rightarrow> int \<times> int \<Rightarrow> bool" where
  "collidepoint r p =
     (rect_x r \<le> fst p \<and> fst p < rect_x r + rect_w r
      \<and> rect_y r \<le> snd p \<and> snd p < rect_y r + rect_h r)"

definition rect_bool :: "Rect \<Rightarrow> bool" where
  "rect_bool r = (rect_w r \<noteq> 0 \<and> rect_h r \<noteq> 0)"

section \<open>game_objects.py\<close>

datatype Difficulty = VERY_EASY | EASY | MEDIUM | HARD

text \<open>The colour of a game object is used by drawing only and is left out.\<close>

record GameObject =
  x :: real
  y :: real
  width :: real
  height :: real

record Paddle = GameObject +
  speed :: real
  velocity :: real
  target_y :: real

text \<open>\<open>Paddle.__init__\<close>\<close>

definition Paddle_init :: "real \<Rightarrow> real \<Rightarrow> real \<Rightarrow> real \<Rightarrow> real \<Rightarrow> Paddle" where
  "Paddle_init x0 y0 w0 h0 speed0 =
     \<lparr>x = x0, y = y0, width = w0, height = h0, speed = speed0, velocity = 0, target_y = y0\<rparr>"

text \<open>\<open>Paddle.move\<close>\<close>

definition Paddle_move :: "Paddle \<Rightarrow> int \<Rightarrow> int \<Rightarrow> Paddle" where
  "Paddle_move self direction screen_height =
     (let self = self\<lparr>velocity := real_of_int direction * speed self\<rparr>;
          self = self\<lparr>y := y self + velocity self\<rparr>
      in if y self < 0 then self\<lparr>y := 0\<rparr>
         else if y self + height self > real_of_int screen_height
           then self\<lparr>y := real_of_int screen_height - height self\<rparr>
         else self)"

text \<open>\<open>Paddle.smooth_move_to\<close>\<close>

definition smooth_move_to :: "Paddle \<Rightarrow> real \<Rightarrow> real \<Rightarrow> int \<Rightarrow> Paddle" where
  "smooth_move_to self target smoothing screen_height =
     (let self = self\<lparr>target_y := target\<rparr>;
          diff = target_y self - y self;
          self = self\<lparr>y := y self + diff * smoothing\<rparr>
      in if y self < 0 then self\<lparr>y := 0\<rparr>
         else if y self + height self > real_of_int screen_height
           then self\<lparr>y := real_of_int screen_height - height self\<rparr>
         else self)"

text \<open>\<open>Paddle.get_rect\<close>\<close>

definition get_rect :: "Paddle \<Rightarrow> Rect" where
  "get_rect self = pygame_Rect (x self) (y self) (width self) (height self)"

record Ball = GameObject +
  radius :: real
  base_speed :: real
  velocity_x :: real
  velocity_y :: real
  initial_x :: real
  initial_y :: real

text \<open>\<open>Ball.__init__\<close>\<close>

definition Ball_init :: "real \<Rightarrow> real \<Rightarrow> real \<Rightarrow> real \<Rightarrow> Ball" where
  "Ball_init x0 y0 radius0 speed0 =
     \<lparr>x = x0, y = y0, width = radius0 * 2, height = radius0 * 2,
      radius = radius0, base_speed = speed0, velocity_x = 0, velocity_y = 0,
      initial_x = x0, initial_y = y0\<rparr>"

text \<open>
  \<open>Ball.reset_position\<close>. The division raises \<open>ZeroDivisionError\<close> when the distance
  to the edge is zero; position and horizontal velocity are already assigned then.
\<close>

definition reset_position :: "Ball \<Rightarrow> int \<Rightarrow> real option \<Rightarrow> random_source \<Rightarrow> Ball result" where
  "reset_position self direction target rnd =
     (let self = self\<lparr>x := initial_x self, y := initial_y self\<rparr>;
          (direction, rnd) =
             (if direction = 0 then (random_choice (rnd 0) [- 1, 1], rnd \<circ> Suc)
              else (direction, rnd));
          self = self\<lparr>velocity_x := base_speed self * real_of_int direction\<rparr>
      in case target of
           Some t \<Rightarrow>
             (let y_diff = t - y self;
                  edge_distance =
                    \<bar>initial_x self - (if direction < 0 then 0 else initial_x self * 2)\<bar>
              in if edge_distance = 0 then Raised ZeroDivisionError self
                 else Returned
                   (self\<lparr>velocity_y := y_diff / edge_distance * base_speed self * 0.6\<rparr>))
         | None \<Rightarrow>
             Returned
               (self\<lparr>velocity_y :=
                  base_speed self * real_of_int (random_choice (rnd 0) [- 1, 1])
                    * random_uniform (rnd 1) 0.5 1.0\<rparr>))"

text \<open>\<open>Ball.move\<close>\<close>

definition Ball_move :: "Ball \<Rightarrow> int \<Rightarrow> int \<Rightarrow> Ball" where
  "Ball_move self screen_width screen_height =
     (let self = self\<lparr>x := x self + velocity_x self\<rparr>;
          self = self\<lparr>y := y self + velocity_y self\<rparr>
      in if y self - radius self \<le> 0 \<or> y self + radius self \<ge> real_of_int screen_height
         then (let self = self\<lparr>velocity_y := velocity_y self * (- 1)\<rparr>
               in if y self - radius self \<le> 0 then self\<lparr>y := radius self\<rparr>
                  else self\<lparr>y := real_of_int screen_height - radius self\<rparr>)
         else self)"

text \<open>
  \<open>Ball.bounce_off_paddle\<close>. The horizontal velocity is inverted before the division,
  which raises \<open>ZeroDivisionError\<close> for a paddle of height zero.
\<close>

definition bounce_off_paddle :: "Ball \<Rightarrow> Paddle \<Rightarrow> Ball result" where
  "bounce_off_paddle self paddle =
     (let self = self\<lparr>velocity_x := velocity_x self * (- 1)\<rparr>;
          paddle_center = y paddle + height paddle / 2
      in if height paddle / 2 = 0 then Raised ZeroDivisionError self
         else (let hit_pos = (y self - paddle_center) / (height paddle / 2)
               in Returned (self\<lparr>velocity_y := hit_pos * base_speed self * 0.8\<rparr>)))"

text \<open>\<open>Ball.check_paddle_collision\<close>\<close>

definition check_paddle_collision :: "Ball \<Rightarrow> Paddle \<Rightarrow> bool" where
  "check_paddle_collision self paddle =
     (let ball_rect = pygame_Rect (x self - radius self) (y self - radius self)
                        (radius self * 2) (radius self * 2)
      in colliderect ball_rect (get_rect paddle))"

record BotController =
  difficulty :: Difficulty
  smoothing_factor :: real
  accuracy :: real
  reaction_delay :: int
  max_reaction_delay :: int

text \<open>\<open>BotController._get_smoothing_factor\<close>, \<open>_get_accuracy\<close>, \<open>_get_max_delay\<close>\<close>

fun get_smoothing_factor :: "Difficulty \<Rightarrow> real" where
  "get_smoothing_factor VERY_EASY = 0.025"
| "get_smoothing_factor EASY = 0.04"
| "get_smoothing_factor MEDIUM = 0.08"
| "get_smoothing_factor HARD = 0.14"

fun get_accuracy :: "Difficulty \<Rightarrow> real" where
  "get_accuracy VERY_EASY = 0.45"
| "get_accuracy EASY = 0.65"
| "get_accuracy MEDIUM = 0.85"
| "get_accuracy HARD = 0.97"

fun get_max_delay :: "Difficulty \<Rightarrow> int" where
  "get_max_delay VERY_EASY = 22"
| "get_max_delay EASY = 14"
| "get_max_delay MEDIUM = 6"
| "get_max_delay HARD = 1"

text \<open>\<open>BotController.__init__\<close>\<close>

definition BotController_init :: "Difficulty \<Rightarrow> BotController" where
  "BotController_init d =
     \<lparr>difficulty = d, smoothing_factor = get_smoothing_factor d,
      accuracy = get_accuracy d, reaction_delay = 0,
      max_reaction_delay = get_max_delay d\<rparr>"

text \<open>
  \<open>BotController.update\<close>, returning the controller and the paddle it moved. Each call
  to the module \<open>random\<close> takes the next element of the source.
\<close>

definition BotController_update ::
  "BotController \<Rightarrow> Paddle \<Rightarrow> Ball \<Rightarrow> int \<Rightarrow> random_source \<Rightarrow> BotController \<times> Paddle" where
  "BotController_update self paddle b screen_height rnd =
     (if reaction_delay self > 0
      then (let self = self\<lparr>reaction_delay := reaction_delay self - 1\<rparr>;
                paddle = smooth_move_to paddle (target_y paddle) (smoothing_factor self)
                           screen_height
            in (self, paddle))
      else (let target = y b - height paddle / 2;
                (target, rnd) =
                   (if random_random (rnd 0) > accuracy self
                    then (let error_range =
                                (if difficulty self = VERY_EASY then 60
                                 else if difficulty self = EASY then 30
                                 else if difficulty self = MEDIUM then 16 else 7)
                          in (target + random_uniform (rnd 1) (- error_range) error_range,
                              rnd \<circ> Suc \<circ> Suc))
                    else (target, rnd \<circ> Suc));
                paddle = smooth_move_to paddle target (smoothing_factor self) screen_height;
                self = self\<lparr>reaction_delay :=
                              random_randint (rnd 0) 0 (max_reaction_delay self)\<rparr>
            in (self, paddle)))"

section \<open>game_config.py\<close>

definition MIN_WIDTH :: int where "MIN_WIDTH = 600"
definition MIN_HEIGHT :: int where "MIN_HEIGHT = 400"
definition WINNING_SCORE :: int where "WINNING_SCORE = 10"
definition RESET_DELAY_MS :: int where "RESET_DELAY_MS = 2000"
definition PADDLE_WIDTH_RATIO :: real where "PADDLE_WIDTH_RATIO = 0.01875"
definition PADDLE_HEIGHT_RATIO :: real where "PADDLE_HEIGHT_RATIO = 0.1667"
definition PADDLE_OFFSET_RATIO :: real where "PADDLE_OFFSET_RATIO = 0.0375"
definition PLAYER_SPEED_RATIO :: real where "PLAYER_SPEED_RATIO = 0.00875"
definition BALL_RADIUS_RATIO :: real where "BALL_RADIUS_RATIO = 0.01"
definition SCORE_FONT_SIZE_RATIO :: real where "SCORE_FONT_SIZE_RATIO = 0.09"
definition SCORE_Y_POSITION_RATIO :: real where "SCORE_Y_POSITION_RATIO = 0.167"
definition SCORE_X_OFFSET_RATIO :: real where "SCORE_X_OFFSET_RATIO = 0.125"
definition BUTTON_WIDTH_RATIO :: real where "BUTTON_WIDTH_RATIO = 0.25"
definition BUTTON_HEIGHT_RATIO :: real where "BUTTON_HEIGHT_RATIO = 0.1"
definition BUTTON_SPACING_RATIO :: real where "BUTTON_SPACING_RATIO = 0.05"
definition MENU_FONT_SIZE_RATIO :: real where "MENU_FONT_SIZE_RATIO = 0.06"
definition BUTTON_FONT_SIZE_RATIO :: real where "BUTTON_FONT_SIZE_RATIO = 0.04"
definition PAUSE_FONT_SIZE_RATIO :: real where "PAUSE_FONT_SIZE_RATIO = 0.08"

record difficulty_settings =
  ball_speed :: real
  bot_speed :: real

fun DIFFICULTY_SETTINGS :: "Difficulty \<Rightarrow> difficulty_settings" where
  "DIFFICULTY_SETTINGS VERY_EASY = \<lparr>ball_speed = 2.2, bot_speed = 1.5\<rparr>"
| "DIFFICULTY_SETTINGS EASY = \<lparr>ball_speed = 3.5, bot_speed = 2.2\<rparr>"
| "DIFFICULTY_SETTINGS MEDIUM = \<lparr>ball_speed = 6.0, bot_speed = 4.0\<rparr>"
| "DIFFICULTY_SETTINGS HARD = \<lparr>ball_speed = 8.4, bot_speed = 6.5\<rparr>"

text \<open>The instance attributes of \<open>GameConfig\<close>, all assigned by \<open>update_screen_size\<close>.\<close>

record GameConfig =
  SCREEN_WIDTH :: int
  SCREEN_HEIGHT :: int
  PADDLE_WIDTH :: int
  PADDLE_HEIGHT :: int
  PADDLE_OFFSET :: int
  PLAYER_SPEED :: real
  BALL_RADIUS :: int
  SCORE_FONT_SIZE :: int
  SCORE_Y_POSITION :: int
  SCORE_X_OFFSET :: int
  BUTTON_WIDTH :: int
  BUTTON_HEIGHT :: int
  BUTTON_SPACING :: int
  MENU_FONT_SIZE :: int
  BUTTON_FONT_SIZE :: int
  PAUSE_FONT_SIZE :: int

text \<open>\<open>GameConfig.update_screen_size\<close>, assignment by assignment.\<close>

definition update_screen_size :: "GameConfig \<Rightarrow> int \<Rightarrow> int \<Rightarrow> GameConfig" where
  "update_screen_size self w h =
     (let self = self\<lparr>SCREEN_WIDTH := max w MIN_WIDTH\<rparr>;
          self = self\<lparr>SCREEN_HEIGHT := max h MIN_HEIGHT\<rparr>;
          self = self\<lparr>PADDLE_WIDTH := py_int (real_of_int (SCREEN_WIDTH self) * PADDLE_WIDTH_RATIO)\<rparr>;
          self = self\<lparr>PADDLE_HEIGHT := py_int (real_of_int (SCREEN_HEIGHT self) * PADDLE_HEIGHT_RATIO)\<rparr>;
          self = self\<lparr>PADDLE_OFFSET := py_int (real_of_int (SCREEN_WIDTH self) * PADDLE_OFFSET_RATIO)\<rparr>;
          self = self\<lparr>PLAYER_SPEED := real_of_int (SCREEN_WIDTH self) * PLAYER_SPEED_RATIO\<rparr>;
          self = self\<lparr>BALL_RADIUS := py_int (real_of_int (SCREEN_WIDTH self) * BALL_RADIUS_RATIO)\<rparr>;
          self = self\<lparr>SCORE_FONT_SIZE := py_int (real_of_int (SCREEN_WIDTH self) * SCORE_FONT_SIZE_RATIO)\<rparr>;
          self = self\<lparr>SCORE_Y_POSITION := py_int (real_of_int (SCREEN_HEIGHT self) * SCORE_Y_POSITION_RATIO)\<rparr>;
          self = self\<lparr>SCORE_X_OFFSET := py_int (real_of_int (SCREEN_WIDTH self) * SCORE_X_OFFSET_RATIO)\<rparr>;
          self = self\<lparr>BUTTON_WIDTH := py_int (real_of_int (SCREEN_WIDTH self) * BUTTON_WIDTH_RATIO)\<rparr>;
          self = self\<lparr>BUTTON_HEIGHT := py_int (real_of_int (SCREEN_HEIGHT self) * BUTTON_HEIGHT_RATIO)\<rparr>;
          self = self\<lparr>BUTTON_SPACING := py_int (real_of_int (SCREEN_HEIGHT self) * BUTTON_SPACING_RATIO)\<rparr>;
          self = self\<lparr>MENU_FONT_SIZE := py_int (real_of_int (SCREEN_WIDTH self) * MENU_FONT_SIZE_RATIO)\<rparr>;
          self = self\<lparr>BUTTON_FONT_SIZE := py_int (real_of_int (SCREEN_WIDTH self) * BUTTON_FONT_SIZE_RATIO)\<rparr>;
          self = self\<lparr>PAUSE_FONT_SIZE := py_int (real_of_int (SCREEN_WIDTH self) * PAUSE_FONT_SIZE_RATIO)\<rparr>
      in self)"

text \<open>
  \<open>GameConfig.__init__\<close> creates the object and calls \<open>update_screen_size\<close>; the
  fields of the object before that call are the arbitrary \<open>fresh\<close>.
\<close>

definition GameConfig_init :: "GameConfig \<Rightarrow> int \<Rightarrow> int \<Rightarrow> GameConfig" where
  "GameConfig_init fresh w h = update_screen_size fresh w h"

text \<open>\<open>GameConfig.get_difficulty_settings\<close>: a missing key falls back to \<open>EASY\<close>.\<close>

definition get_difficulty_settings :: "Difficulty option \<Rightarrow> difficulty_settings" where
  "get_difficulty_settings d =
     (case d of Some k \<Rightarrow> DIFFICULTY_SETTINGS k | None \<Rightarrow> DIFFICULTY_SETTINGS EASY)"

text \<open>\<open>GameConfig.scale_speed\<close>\<close>

definition scale_speed :: "GameConfig \<Rightarrow> real \<Rightarrow> real" where
  "scale_speed self base =
     (let scale_factor = real_of_int (SCREEN_WIDTH self) / 800.0
      in base * scale_factor)"

section \<open>game_state.py\<close>

datatype GameState = MENU | PLAYING | PAUSED | GAME_OVER

record ScoreManager =
  player_score :: int
  bot_score :: int
  winning_score :: int

definition ScoreManager_init :: "int \<Rightarrow> ScoreManager" where
  "ScoreManager_init w = \<lparr>player_score = 0, bot_score = 0, winning_score = w\<rparr>"

definition increment_player_score :: "ScoreManager \<Rightarrow> ScoreManager" where
  "increment_player_score self = self\<lparr>player_score := player_score self + 1\<rparr>"

definition increment_bot_score :: "ScoreManager \<Rightarrow> ScoreManager" where
  "increment_bot_score self = self\<lparr>bot_score := bot_score self + 1\<rparr>"

definition ScoreManager_reset :: "ScoreManager \<Rightarrow> ScoreManager" where
  "ScoreManager_reset self = self\<lparr>player_score := 0, bot_score := 0\<rparr>"

definition check_winner :: "ScoreManager \<Rightarrow> string option" where
  "check_winner self =
     (if player_score self \<ge> winning_score self then Some ''Player''
      else if bot_score self \<ge> winning_score self then Some ''Bot''
      else None)"

definition get_scores :: "ScoreManager \<Rightarrow> int \<times> int" where
  "get_scores self = (player_score self, bot_score self)"

section \<open>ui_renderer.py: the interactive regions\<close>

text \<open>
  Of the renderer only the rectangles that the drawing methods return are kept; they
  are computed from the configuration alone.
\<close>

definition button_rect_at :: "GameConfig \<Rightarrow> int \<Rightarrow> Rect" where
  "button_rect_at cfg button_y =
     Rect (SCREEN_WIDTH cfg div 2 - BUTTON_WIDTH cfg div 2) button_y
          (BUTTON_WIDTH cfg) (BUTTON_HEIGHT cfg)"

definition draw_menu :: "GameConfig \<Rightarrow> (Rect \<times> Difficulty) list" where
  "draw_menu cfg =
     (let difficulties = [VERY_EASY, EASY, MEDIUM, HARD];
          start_y = py_int (real_of_int (SCREEN_HEIGHT cfg) * 0.40)
      in map (\<lambda>(i, d).
                (button_rect_at cfg
                   (start_y + int i * (BUTTON_HEIGHT cfg + BUTTON_SPACING cfg)), d))
             (enumerate 0 difficulties))"

text \<open>The keys are the lower-cased labels \<open>Resume\<close> and \<open>New Game\<close>, blanks replaced.\<close>

definition draw_pause_menu :: "GameConfig \<Rightarrow> (string \<rightharpoonup> Rect)" where
  "draw_pause_menu cfg =
     (let start_y = py_int (real_of_int (SCREEN_HEIGHT cfg) * 0.45)
      in [''resume'' \<mapsto>
            button_rect_at cfg (start_y + 0 * (BUTTON_HEIGHT cfg + BUTTON_SPACING cfg)),
          ''new_game'' \<mapsto>
            button_rect_at cfg (start_y + 1 * (BUTTON_HEIGHT cfg + BUTTON_SPACING cfg))])"

definition draw_game_over :: "GameConfig \<Rightarrow> Rect" where
  "draw_game_over cfg =
     button_rect_at cfg (py_int (real_of_int (SCREEN_HEIGHT cfg) * 0.5))"

section \<open>game.py\<close>

text \<open>
  The display surface is kept as its size \<open>(width, height)\<close>.
  \<open>pygame.display.set_mode((w, h), RESIZABLE)\<close> returns a surface of the size asked
  for, where a dimension of zero stands for that of the desktop; a negative dimension
  raises \<open>pygame.error\<close>. The clock and the renderer's fonts are left out.
\<close>

definition get_width :: "int \<times> int \<Rightarrow> int" where "get_width s = fst s"
definition get_height :: "int \<times> int \<Rightarrow> int" where "get_height s = snd s"

definition set_mode :: "int \<times> int \<Rightarrow> int \<times> int \<Rightarrow> int \<times> int" where
  "set_mode desktop_size asked =
     (if fst asked = 0 then fst desktop_size else fst asked,
      if snd asked = 0 then snd desktop_size else snd asked)"

text \<open>
  The attributes of \<open>PongGame\<close>. The field \<open>desktop\<close> is not one of them: it is the
  resolution of the desktop, which belongs to the display library and is kept with the
  game so that \<open>set_mode\<close> can read it.
\<close>

record PongGame =
  config :: GameConfig
  screen :: "int \<times> int"
  state :: GameState
  score_manager :: ScoreManager
  player_paddle :: "Paddle option"
  bot_paddle :: "Paddle option"
  ball :: "Ball option"
  bot_controller :: "BotController option"
  keys_pressed :: "string set"
  current_difficulty :: "Difficulty option"
  menu_buttons :: "(Rect \<times> Difficulty) list"
  pause_buttons :: "string \<rightharpoonup> Rect"
  play_again_button :: "Rect option"
  winner :: "string option"
  reset_timer :: int
  waiting_for_reset :: bool
  last_scorer :: "string option"
  desktop :: "int \<times> int"

text \<open>
  \<open>PongGame.__init__\<close>. \<open>GameConfig()\<close> starts from the class attributes
  \<open>SCREEN_WIDTH = 800\<close> and \<open>SCREEN_HEIGHT = 600\<close>; every other field is assigned by
  \<open>update_screen_size\<close> before it is read.
\<close>

definition PongGame_init :: "int \<times> int \<Rightarrow> PongGame" where
  "PongGame_init desktop_size =
     (let cfg = GameConfig_init
                  \<lparr>SCREEN_WIDTH = 800, SCREEN_HEIGHT = 600, PADDLE_WIDTH = 0,
                   PADDLE_HEIGHT = 0, PADDLE_OFFSET = 0, PLAYER_SPEED = 0, BALL_RADIUS = 0,
                   SCORE_FONT_SIZE = 0, SCORE_Y_POSITION = 0, SCORE_X_OFFSET = 0,
                   BUTTON_WIDTH = 0, BUTTON_HEIGHT = 0, BUTTON_SPACING = 0,
                   MENU_FONT_SIZE = 0, BUTTON_FONT_SIZE = 0, PAUSE_FONT_SIZE = 0\<rparr>
                  800 600
      in \<lparr>config = cfg,
          screen = set_mode desktop_size (SCREEN_WIDTH cfg, SCREEN_HEIGHT cfg), state = MENU,
          score_manager = ScoreManager_init WINNING_SCORE,
          player_paddle = None, bot_paddle = None, ball = None, bot_controller = None,
          keys_pressed = {}, current_difficulty = None, menu_buttons = [],
          pause_buttons = Map.empty, play_again_button = None, winner = None,
          reset_timer = 0, waiting_for_reset = False, last_scorer = None,
          desktop = desktop_size\<rparr>)"

text \<open>\<open>PongGame.initialize_game_objects\<close>\<close>

definition initialize_game_objects ::
  "PongGame \<Rightarrow> Difficulty \<Rightarrow> random_source \<Rightarrow> PongGame result" where
  "initialize_game_objects self d rnd =
     (let self = self\<lparr>current_difficulty := Some d\<rparr>;
          settings = get_difficulty_settings (Some d);
          ball_speed0 = scale_speed (config self) (ball_speed settings);
          bot_speed0 = scale_speed (config self) (bot_speed settings);
          self = self\<lparr>player_paddle := Some (Paddle_init
                   (real_of_int (PADDLE_OFFSET (config self)))
                   (real_of_int (SCREEN_HEIGHT (config self) div 2
                                   - PADDLE_HEIGHT (config self) div 2))
                   (real_of_int (PADDLE_WIDTH (config self)))
                   (real_of_int (PADDLE_HEIGHT (config self)))
                   (PLAYER_SPEED (config self)))\<rparr>;
          self = self\<lparr>bot_paddle := Some (Paddle_init
                   (real_of_int (SCREEN_WIDTH (config self) - PADDLE_OFFSET (config self)
                                   - PADDLE_WIDTH (config self)))
                   (real_of_int (SCREEN_HEIGHT (config self) div 2
                                   - PADDLE_HEIGHT (config self) div 2))
                   (real_of_int (PADDLE_WIDTH (config self)))
                   (real_of_int (PADDLE_HEIGHT (config self)))
                   bot_speed0)\<rparr>;
          b = Ball_init (real_of_int (SCREEN_WIDTH (config self) div 2))
                        (real_of_int (SCREEN_HEIGHT (config self) div 2))
                        (real_of_int (BALL_RADIUS (config self)))
                        ball_speed0;
          self = self\<lparr>ball := Some b\<rparr>
      in case reset_position b 0 None rnd of
           Raised e b' \<Rightarrow> Raised e (self\<lparr>ball := Some b'\<rparr>)
         | Returned b' \<Rightarrow>
             (let self = self\<lparr>ball := Some b'\<rparr>;
                  self = self\<lparr>bot_controller := Some (BotController_init d)\<rparr>;
                  self = self\<lparr>score_manager := ScoreManager_reset (score_manager self)\<rparr>;
                  self = self\<lparr>waiting_for_reset := False\<rparr>;
                  self = self\<lparr>reset_timer := 0\<rparr>;
                  self = self\<lparr>last_scorer := None\<rparr>
              in Returned self))"

text \<open>
  \<open>PongGame.resize_game_objects\<close>. The four ratios are computed before anything is
  assigned, so a zero screen dimension raises with the game unchanged. The divisor of
  \<open>speed_ratio\<close> is an entry of the settings table.
\<close>

definition resize_game_objects :: "PongGame \<Rightarrow> PongGame result" where
  "resize_game_objects self =
     (case (player_paddle self, bot_paddle self, ball self) of
        (Some pp, Some bp, Some b) \<Rightarrow>
          if get_height (screen self) = 0 \<or> get_width (screen self) = 0
          then Raised ZeroDivisionError self
          else
            (let player_y_ratio = y pp / real_of_int (get_height (screen self));
                 bot_y_ratio = y bp / real_of_int (get_height (screen self));
                 ball_x_ratio = x b / real_of_int (get_width (screen self));
                 ball_y_ratio = y b / real_of_int (get_height (screen self));
                 settings = get_difficulty_settings (current_difficulty self);
                 ball_speed0 = scale_speed (config self) (ball_speed settings);
                 bot_speed0 = scale_speed (config self) (bot_speed settings);
                 pp = pp\<lparr>x := real_of_int (PADDLE_OFFSET (config self)),
                         y := player_y_ratio * real_of_int (SCREEN_HEIGHT (config self)),
                         width := real_of_int (PADDLE_WIDTH (config self)),
                         height := real_of_int (PADDLE_HEIGHT (config self)),
                         speed := PLAYER_SPEED (config self)\<rparr>;
                 bp = bp\<lparr>x := real_of_int (SCREEN_WIDTH (config self)
                                             - PADDLE_OFFSET (config self)
                                             - PADDLE_WIDTH (config self)),
                         y := bot_y_ratio * real_of_int (SCREEN_HEIGHT (config self)),
                         width := real_of_int (PADDLE_WIDTH (config self)),
                         height := real_of_int (PADDLE_HEIGHT (config self)),
                         speed := bot_speed0\<rparr>;
                 b = b\<lparr>x := ball_x_ratio * real_of_int (SCREEN_WIDTH (config self)),
                       y := ball_y_ratio * real_of_int (SCREEN_HEIGHT (config self)),
                       radius := real_of_int (BALL_RADIUS (config self)),
                       initial_x := real_of_int (SCREEN_WIDTH (config self) div 2),
                       initial_y := real_of_int (SCREEN_HEIGHT (config self) div 2),
                       base_speed := ball_speed0\<rparr>;
                 speed_ratio = ball_speed0 / ball_speed settings;
                 b = b\<lparr>velocity_x := velocity_x b * speed_ratio\<rparr>;
                 b = b\<lparr>velocity_y := velocity_y b * speed_ratio\<rparr>
             in Returned (self\<lparr>player_paddle := Some pp, bot_paddle := Some bp,
                               ball := Some b\<rparr>))
      | _ \<Rightarrow> Returned self)"

datatype Key = K_w | K_UP | K_s | K_DOWN | K_ESCAPE | K_OTHER

datatype Event =
    QUIT
  | VIDEORESIZE int int
  | MOUSEBUTTONDOWN
  | KEYDOWN Key
  | KEYUP Key
  | OTHER_EVENT

text \<open>The window-resize block of the event loop of \<open>handle_input\<close>.\<close>

definition on_videoresize :: "PongGame \<Rightarrow> int \<Rightarrow> int \<Rightarrow> PongGame result" where
  "on_videoresize self w h =
     (if w < 0 \<or> h < 0 then Raised pygame_error self
      else
        (let self = self\<lparr>screen := set_mode (desktop self) (w, h)\<rparr>;
             self = self\<lparr>config := update_screen_size (config self) w h\<rparr>
         in if state self = PLAYING \<and> player_paddle self \<noteq> None
            then resize_game_objects self
            else Returned self))"

text \<open>The loop over \<open>menu_buttons\<close>, left at the first button hit.\<close>

fun click_menu ::
  "PongGame \<Rightarrow> (Rect \<times> Difficulty) list \<Rightarrow> int \<times> int \<Rightarrow> random_source \<Rightarrow> PongGame result" where
  "click_menu self [] mouse_pos rnd = Returned self"
| "click_menu self ((button_rect, d) # buttons) mouse_pos rnd =
     (if collidepoint button_rect mouse_pos
      then (case initialize_game_objects self d rnd of
              Raised e self' \<Rightarrow> Raised e self'
            | Returned self' \<Rightarrow> Returned (self'\<lparr>state := PLAYING\<rparr>))
      else click_menu self buttons mouse_pos rnd)"

definition button_hit :: "(string \<rightharpoonup> Rect) \<Rightarrow> string \<Rightarrow> int \<times> int \<Rightarrow> bool" where
  "button_hit buttons k mouse_pos =
     (case buttons k of None \<Rightarrow> False | Some r \<Rightarrow> collidepoint r mouse_pos)"

text \<open>
  The chain of state branches of the event loop. \<open>mouse_pos\<close> is what
  \<open>pygame.mouse.get_pos()\<close> returns while the event is handled.
\<close>

definition on_state_event ::
  "PongGame \<Rightarrow> Event \<Rightarrow> int \<times> int \<Rightarrow> random_source \<Rightarrow> PongGame result" where
  "on_state_event self ev mouse_pos rnd =
     (if state self = MENU then
        (if ev = MOUSEBUTTONDOWN then click_menu self (menu_buttons self) mouse_pos rnd
         else Returned self)
      else if state self = PAUSED then
        (if ev = MOUSEBUTTONDOWN then
           (if button_hit (pause_buttons self) ''resume'' mouse_pos
              then Returned (self\<lparr>state := PLAYING\<rparr>)
            else if button_hit (pause_buttons self) ''new_game'' mouse_pos
              then Returned (self\<lparr>state := MENU\<rparr>)
            else Returned self)
         else if ev = KEYDOWN K_ESCAPE then Returned (self\<lparr>state := PLAYING\<rparr>)
         else Returned self)
      else if state self = GAME_OVER then
        (if ev = MOUSEBUTTONDOWN then
           (case play_again_button self of
              Some r \<Rightarrow>
                if rect_bool r \<and> collidepoint r mouse_pos
                then Returned (self\<lparr>state := MENU\<rparr>) else Returned self
            | None \<Rightarrow> Returned self)
         else Returned self)
      else if state self = PLAYING then
        (case ev of
           KEYDOWN k \<Rightarrow>
             if k = K_w \<or> k = K_UP
               then Returned (self\<lparr>keys_pressed := insert ''up'' (keys_pressed self)\<rparr>)
             else if k = K_s \<or> k = K_DOWN
               then Returned (self\<lparr>keys_pressed := insert ''down'' (keys_pressed self)\<rparr>)
             else if k = K_ESCAPE then Returned (self\<lparr>state := PAUSED\<rparr>)
             else Returned self
         | KEYUP k \<Rightarrow>
             if k = K_w \<or> k = K_UP
               then Returned (self\<lparr>keys_pressed := keys_pressed self - {''up''}\<rparr>)
             else if k = K_s \<or> k = K_DOWN
               then Returned (self\<lparr>keys_pressed := keys_pressed self - {''down''}\<rparr>)
             else Returned self
         | _ \<Rightarrow> Returned self)
      else Returned self)"

text \<open>The body of the event loop for one event other than \<open>QUIT\<close>.\<close>

definition handle_event ::
  "PongGame \<Rightarrow> Event \<Rightarrow> int \<times> int \<Rightarrow> random_source \<Rightarrow> PongGame result" where
  "handle_event self ev mouse_pos rnd =
     (case (case ev of VIDEORESIZE w h \<Rightarrow> on_videoresize self w h | _ \<Rightarrow> Returned self) of
        Raised e self' \<Rightarrow> Raised e self'
      | Returned self' \<Rightarrow> on_state_event self' ev mouse_pos rnd)"

text \<open>
  \<open>PongGame.handle_input\<close> over the pending events, each with the mouse position and
  the random source in force while it is handled. The flag is \<open>False\<close> when the game
  is to end.
\<close>

fun handle_input ::
  "PongGame \<Rightarrow> (Event \<times> (int \<times> int) \<times> random_source) list \<Rightarrow> (bool \<times> PongGame) result" where
  "handle_input self [] = Returned (True, self)"
| "handle_input self ((ev, mouse_pos, rnd) # events) =
     (if ev = QUIT then Returned (False, self)
      else (case handle_event self ev mouse_pos rnd of
              Raised e self' \<Rightarrow> Raised e (True, self')
            | Returned self' \<Rightarrow> handle_input self' events))"

text \<open>The scoring branch of \<open>update\<close> for either side, after the score was counted.\<close>

definition park_ball :: "PongGame \<Rightarrow> Ball \<Rightarrow> string \<Rightarrow> int \<Rightarrow> PongGame" where
  "park_ball self b scorer now =
     (let self = self\<lparr>last_scorer := Some scorer\<rparr>;
          b = b\<lparr>x := real_of_int (SCREEN_WIDTH (config self) div 2)\<rparr>;
          b = b\<lparr>y := real_of_int (SCREEN_HEIGHT (config self) div 2)\<rparr>;
          b = b\<lparr>velocity_x := 0\<rparr>;
          b = b\<lparr>velocity_y := 0\<rparr>;
          self = self\<lparr>ball := Some b\<rparr>;
          self = self\<lparr>waiting_for_reset := True\<rparr>;
          self = self\<lparr>reset_timer := now\<rparr>
      in self)"

text \<open>
  The end of \<open>update\<close>: scoring and the check for a winner. A string is true as a
  condition when it is not empty.
\<close>

definition score_and_check :: "PongGame \<Rightarrow> Ball \<Rightarrow> int \<Rightarrow> PongGame" where
  "score_and_check self b now =
     (let self =
            (if x b - radius b < 0
             then park_ball
                    (self\<lparr>score_manager := increment_bot_score (score_manager self)\<rparr>)
                    b ''bot'' now
             else if x b + radius b > real_of_int (SCREEN_WIDTH (config self))
             then park_ball
                    (self\<lparr>score_manager := increment_player_score (score_manager self)\<rparr>)
                    b ''player'' now
             else self)
      in case check_winner (score_manager self) of
           Some w \<Rightarrow> if w \<noteq> [] then self\<lparr>winner := Some w, state := GAME_OVER\<rparr> else self
         | None \<Rightarrow> self)"

text \<open>The two paddle-collision tests of \<open>update\<close>, on the ball already moved.\<close>

definition collide_paddles :: "PongGame \<Rightarrow> Ball \<Rightarrow> Paddle \<Rightarrow> Paddle \<Rightarrow> Ball result" where
  "collide_paddles self b pp bp =
     (case (if check_paddle_collision b pp \<and> velocity_x b < 0
            then bounce_off_paddle b pp else Returned b) of
        Raised e b' \<Rightarrow> Raised e b'
      | Returned b' \<Rightarrow>
          (if check_paddle_collision b' bp \<and> velocity_x b' > 0
           then bounce_off_paddle b' bp else Returned b'))"

text \<open>
  The post-score branch of \<open>update\<close>, entered when \<open>waiting_for_reset\<close> is set.
  \<open>now\<close> is what \<open>pygame.time.get_ticks()\<close> returns. An object that is \<open>None\<close> when
  it is dereferenced raises \<open>AttributeError\<close>.
\<close>

definition update_waiting :: "PongGame \<Rightarrow> int \<Rightarrow> random_source \<Rightarrow> PongGame result" where
  "update_waiting self now rnd =
     (let current_time = now
      in if current_time - reset_timer self \<ge> RESET_DELAY_MS
         then (case (if last_scorer self = Some ''bot''
                     then (case player_paddle self of
                             None \<Rightarrow> None
                           | Some pp \<Rightarrow> Some (- 1, y pp + height pp / 2))
                     else (case bot_paddle self of
                             None \<Rightarrow> None
                           | Some bp \<Rightarrow> Some (1, y bp + height bp / 2))) of
                 None \<Rightarrow> Raised AttributeError self
               | Some (direction, target) \<Rightarrow>
                   (case ball self of
                      None \<Rightarrow> Raised AttributeError self
                    | Some b \<Rightarrow>
                        (case reset_position b direction (Some target) rnd of
                           Raised e b' \<Rightarrow> Raised e (self\<lparr>ball := Some b'\<rparr>)
                         | Returned b' \<Rightarrow>
                             Returned (self\<lparr>ball := Some b',
                                            waiting_for_reset := False\<rparr>))))
         else Returned self)"

text \<open>The direction that \<open>update\<close> derives from the pressed keys.\<close>

definition player_direction :: "string set \<Rightarrow> int" where
  "player_direction keys =
     (let direction = 0
      in if ''up'' \<in> keys then - 1
         else if ''down'' \<in> keys then 1
         else direction)"

text \<open>
  The call \<open>self.bot_controller.update(self.bot_paddle, self.ball, ...)\<close> on the
  attributes as they are. When paddle and ball exist it is \<open>BotController.update\<close>.
  Otherwise: with a pending delay the controller counts down, then moves the paddle,
  and never reads the ball; without one it reads the ball first and the paddle next.
\<close>

definition update_bot :: "PongGame \<Rightarrow> random_source \<Rightarrow> PongGame result" where
  "update_bot self rnd =
     (case bot_controller self of
        None \<Rightarrow> Raised AttributeError self
      | Some bc \<Rightarrow>
          (case (bot_paddle self, ball self) of
             (Some bp, Some b) \<Rightarrow>
               (let (bc', bp') =
                      BotController_update bc bp b (SCREEN_HEIGHT (config self)) rnd
                in Returned (self\<lparr>bot_controller := Some bc', bot_paddle := Some bp'\<rparr>))
           | (Some bp, None) \<Rightarrow>
               if reaction_delay bc > 0
               then Returned
                      (self\<lparr>bot_controller :=
                              Some (bc\<lparr>reaction_delay := reaction_delay bc - 1\<rparr>),
                            bot_paddle :=
                              Some (smooth_move_to bp (target_y bp) (smoothing_factor bc)
                                      (SCREEN_HEIGHT (config self)))\<rparr>)
               else Raised AttributeError self
           | (None, _) \<Rightarrow>
               if reaction_delay bc > 0
               then Raised AttributeError
                      (self\<lparr>bot_controller :=
                              Some (bc\<lparr>reaction_delay := reaction_delay bc - 1\<rparr>)\<rparr>)
               else Raised AttributeError self))"

text \<open>\<open>PongGame.update\<close>: one tick of the simulation.\<close>

definition update :: "PongGame \<Rightarrow> int \<Rightarrow> random_source \<Rightarrow> PongGame result" where
  "update self now rnd =
     (if state self \<noteq> PLAYING then Returned self
      else if waiting_for_reset self then update_waiting self now rnd
      else
        (case player_paddle self of
           None \<Rightarrow> Raised AttributeError self
         | Some pp \<Rightarrow>
             (let pp = Paddle_move pp (player_direction (keys_pressed self))
                         (SCREEN_HEIGHT (config self));
                  self = self\<lparr>player_paddle := Some pp\<rparr>
              in case update_bot self rnd of
                   Raised e self' \<Rightarrow> Raised e self'
                 | Returned self \<Rightarrow>
                     (case (ball self, bot_paddle self) of
                        (Some b, Some bp) \<Rightarrow>
                          (let b = Ball_move b (SCREEN_WIDTH (config self))
                                     (SCREEN_HEIGHT (config self))
                           in case collide_paddles self b pp bp of
                                Raised e b' \<Rightarrow> Raised e (self\<lparr>ball := Some b'\<rparr>)
                              | Returned b' \<Rightarrow>
                                  Returned (score_and_check (self\<lparr>ball := Some b'\<rparr>) b' now))
                      | _ \<Rightarrow> Raised AttributeError self))))"

text \<open>
  \<open>PongGame.render\<close>, as far as it changes the game: it stores the rectangles the
  renderer returns. Drawing a paddle or ball that is \<open>None\<close> raises \<open>AttributeError\<close>.
\<close>

definition render :: "PongGame \<Rightarrow> PongGame result" where
  "render self =
     (if state self = MENU then Returned (self\<lparr>menu_buttons := draw_menu (config self)\<rparr>)
      else if state self = PLAYING then
        (if player_paddle self = None \<or> bot_paddle self = None \<or> ball self = None
         then Raised AttributeError self else Returned self)
      else if state self = PAUSED then
        (if player_paddle self = None \<or> bot_paddle self = None \<or> ball self = None
         then Raised AttributeError self
         else Returned (self\<lparr>pause_buttons := draw_pause_menu (config self)\<rparr>))
      else if state self = GAME_OVER then
        Returned (self\<lparr>play_again_button := Some (draw_game_over (config self))\<rparr>)
      else Returned self)"

text \<open>
  What drives the game: an input event, a simulation tick or a frame being rendered.
  \<open>PongGame.run\<close> interleaves them in the order input, tick, frame.
\<close>

datatype Step =
    Input Event "int \<times> int" random_source
  | Tick int random_source
  | Frame

fun step :: "PongGame \<Rightarrow> Step \<Rightarrow> PongGame result" where
  "step self (Input ev mouse_pos rnd) =
     (if ev = QUIT then Returned self else handle_event self ev mouse_pos rnd)"
| "step self (Tick now rnd) = update self now rnd"
| "step self Frame = render self"

text \<open>
  The transitions of a run: the game before a step, the step, and the game after it.
  An exception ends the run.
\<close>

fun transitions :: "PongGame \<Rightarrow> Step list \<Rightarrow> (PongGame \<times> Step \<times> PongGame) list" where
  "transitions self [] = []"
| "transitions self (s # ss) =
     (self, s, final (step self s))
       # (case step self s of
            Raised e self' \<Rightarrow> []
          | Returned self' \<Rightarrow> transitions self' ss)"

text \<open>
  A sequence of calls to \<open>BotController.update\<close> on one paddle, each with the ball and
  the random source of its tick.
\<close>

fun bot_run ::
  "BotController \<Rightarrow> Paddle \<Rightarrow> int \<Rightarrow> (Ball \<times> random_source) list \<Rightarrow> BotController \<times> Paddle" where
  "bot_run self paddle screen_height [] = (self, paddle)"
| "bot_run self paddle screen_height ((b, rnd) # ticks) =
     (case BotController_update self paddle b screen_height rnd of
        (self', paddle') \<Rightarrow> bot_run self' paddle' screen_height ticks)"

section \<open>Properties stated about the game\<close>

text \<open>A paddle fits the viewport and lies inside it.\<close>

definition within_screen :: "Paddle \<Rightarrow> int \<Rightarrow> bool" where
  "within_screen p screen_height =
     (height p \<le> real_of_int screen_height
      \<and> 0 \<le> y p \<and> y p \<le> real_of_int screen_height - height p)"

text \<open>Both paddles of a game, once created, are inside the configured viewport.\<close>

definition paddles_within :: "PongGame \<Rightarrow> bool" where
  "paddles_within g =
     (\<forall>p \<in> set_option (player_paddle g) \<union> set_option (bot_paddle g).
        within_screen p (SCREEN_HEIGHT (config g)))"

text \<open>The configuration is one that \<open>update_screen_size\<close> produces.\<close>

definition resolved :: "GameConfig \<Rightarrow> bool" where
  "resolved cfg = (update_screen_size cfg (SCREEN_WIDTH cfg) (SCREEN_HEIGHT cfg) = cfg)"

fun is_resize :: "Step \<Rightarrow> bool" where
  "is_resize (Input (VIDEORESIZE w h) mouse_pos rnd) = True"
| "is_resize s = False"

text \<open>The triggers of the session state machine, as properties of a step.\<close>

fun difficulty_selected :: "PongGame \<Rightarrow> Step \<Rightarrow> bool" where
  "difficulty_selected g (Input ev mouse_pos rnd) =
     (ev = MOUSEBUTTONDOWN
      \<and> (\<exists>(r, d) \<in> set (menu_buttons g). collidepoint r mouse_pos))"
| "difficulty_selected g s = False"

fun pause_trigger :: "Step \<Rightarrow> bool" where
  "pause_trigger (Input ev mouse_pos rnd) = (ev = KEYDOWN K_ESCAPE)"
| "pause_trigger s = False"

fun win_detected :: "Step \<Rightarrow> PongGame \<Rightarrow> bool" where
  "win_detected (Tick now rnd) g' =
     (check_winner (score_manager g') \<noteq> None \<and> winner g' = check_winner (score_manager g'))"
| "win_detected s g' = False"

fun play_again_trigger :: "PongGame \<Rightarrow> Step \<Rightarrow> bool" where
  "play_again_trigger g (Input ev mouse_pos rnd) =
     (ev = MOUSEBUTTONDOWN
      \<and> (case play_again_button g of
            None \<Rightarrow> False | Some r \<Rightarrow> collidepoint r mouse_pos))"
| "play_again_trigger g s = False"

section \<open>Concrete games\<close>

text \<open>A random source whose every draw is the least value allowed.\<close>

definition low_rnd :: random_source where
  "low_rnd =
     (\<lambda>n. \<lparr>random_choice = (\<lambda>xs. - 1), random_uniform = (\<lambda>a b. a),
            random_random = 0, random_randint = (\<lambda>a b. a)\<rparr>)"

text \<open>
  A match at difficulty \<open>EASY\<close> in the initial 800 by 600 window, on a desktop of
  1920 by 1080.
\<close>

definition easy_match :: PongGame where
  "easy_match =
     (final (initialize_game_objects (PongGame_init (1920, 1080)) EASY low_rnd))
       \<lparr>state := PLAYING\<rparr>"

text \<open>The player's paddle of a game moved to the height \<open>v\<close>.\<close>

definition player_at :: "PongGame \<Rightarrow> real \<Rightarrow> PongGame" where
  "player_at g v = g\<lparr>player_paddle := map_option (\<lambda>p. p\<lparr>y := v\<rparr>) (player_paddle g)\<rparr>"

text \<open>
  The match after the bot scored at time 1000: the ball parked, the wait running, and
  the player's paddle at the bottom of the window.
\<close>

definition bot_scored :: PongGame where
  "bot_scored =
     player_at
       (case ball easy_match of
          None \<Rightarrow> easy_match
        | Some b \<Rightarrow>
            park_ball
              (easy_match\<lparr>score_manager := increment_bot_score (score_manager easy_match)\<rparr>)
              b ''bot'' 1000)
       500"

text \<open>A paddle and a ball of that match: the ball overlaps the top edge of the paddle.\<close>

definition edge_paddle :: Paddle where
  "edge_paddle = Paddle_init 30 100 15 100 7"

definition edge_ball :: Ball where
  "edge_ball =
     (Ball_init 400 300 8 3.5)\<lparr>x := 50, y := 95, velocity_x := - 3.5, velocity_y := 1\<rparr>"

text \<open>The match with the bot one point from winning and the ball about to leave on the left.\<close>

definition match_point :: PongGame where
  "match_point =
     easy_match\<lparr>score_manager := (score_manager easy_match)\<lparr>bot_score := 9\<rparr>,
                ball := map_option (\<lambda>b. b\<lparr>x := 5\<rparr>) (ball easy_match)\<rparr>"

text \<open>
  The window shrunk to 800 by 450 during the wait after the bot scored, followed by a
  tick 500 ms into the wait.
\<close>

definition resized_in_wait :: PongGame where
  "resized_in_wait =
     final (step (final (step bot_scored (Input (VIDEORESIZE 800 450) (0, 0) low_rnd)))
                 (Tick 1500 low_rnd))"

text \<open>
  The window enlarged to 1600 by 1200 during the wait after the bot scored, followed by
  a tick 500 ms into the wait.
\<close>

definition enlarged_in_wait :: PongGame where
  "enlarged_in_wait =
     final (step (final (step bot_scored (Input (VIDEORESIZE 1600 1200) (0, 0) low_rnd)))
                 (Tick 1500 low_rnd))"

text \<open>
  The match with the player's paddle at 0.4 of the window height, resized from 800 by
  600 to 1600 by 1200, and the same resize event delivered once more.
\<close>

definition resized_once :: PongGame where
  "resized_once =
     final (step (player_at easy_match 240) (Input (VIDEORESIZE 1600 1200) (0, 0) low_rnd))"

definition resized_twice :: PongGame where
  "resized_twice =
     final (step resized_once (Input (VIDEORESIZE 1600 1200) (0, 0) low_rnd))"

text \<open>A game that is over, with the button drawn.\<close>

definition over_game :: PongGame where
  "over_game =
     final (render (easy_match\<lparr>state := GAME_OVER, winner := Some ''Bot''\<rparr>))"

section \<open>The configuration resolver\<close>

lemma update_screen_size_eq:
  "update_screen_size c w h =
     \<lparr>SCREEN_WIDTH = max w 600, SCREEN_HEIGHT = max h 400,
      PADDLE_WIDTH = py_int (real_of_int (max w 600) * 0.01875),
      PADDLE_HEIGHT = py_int (real_of_int (max h 400) * 0.1667),
      PADDLE_OFFSET = py_int (real_of_int (max w 600) * 0.0375),
      PLAYER_SPEED = real_of_int (max w 600) * 0.00875,
      BALL_RADIUS = py_int (real_of_int (max w 600) * 0.01),
      SCORE_FONT_SIZE = py_int (real_of_int (max w 600) * 0.09),
      SCORE_Y_POSITION = py_int (real_of_int (max h 400) * 0.167),
      SCORE_X_OFFSET = py_int (real_of_int (max w 600) * 0.125),
      BUTTON_WIDTH = py_int (real_of_int (max w 600) * 0.25),
      BUTTON_HEIGHT = py_int (real_of_int (max h 400) * 0.1),
      BUTTON_SPACING = py_int (real_of_int (max h 400) * 0.05),
      MENU_FONT_SIZE = py_int (real_of_int (max w 600) * 0.06),
      BUTTON_FONT_SIZE = py_int (real_of_int (max w 600) * 0.04),
      PAUSE_FONT_SIZE = py_int (real_of_int (max w 600) * 0.08)\<rparr>"
  unfolding update_screen_size_def
  apply (subst Let_def, simp?)+
  apply (simp add: MIN_WIDTH_def MIN_HEIGHT_def
    PADDLE_WIDTH_RATIO_def PADDLE_HEIGHT_RATIO_def PADDLE_OFFSET_RATIO_def
    PLAYER_SPEED_RATIO_def BALL_RADIUS_RATIO_def SCORE_FONT_SIZE_RATIO_def
    SCORE_Y_POSITION_RATIO_def SCORE_X_OFFSET_RATIO_def BUTTON_WIDTH_RATIO_def
    BUTTON_HEIGHT_RATIO_def BUTTON_SPACING_RATIO_def MENU_FONT_SIZE_RATIO_def
    BUTTON_FONT_SIZE_RATIO_def PAUSE_FONT_SIZE_RATIO_def)
  done

text \<open>
  Claim C8. For every width and height, \<open>update_screen_size\<close> clamps them to the
  minimums 600 and 400. The resulting configuration does not depend on the object it
  overwrites and is the one obtained from the clamped dimensions, so every derived
  field is a function of the clamped dimensions; resolving again with the same inputs
  changes nothing. \<open>scale_speed\<close> multiplies by the configured width over 800.
\<close>

theorem config_resolver:
  "SCREEN_WIDTH (update_screen_size c w h) = max w 600
   \<and> SCREEN_HEIGHT (update_screen_size c w h) = max h 400
   \<and> update_screen_size c w h = update_screen_size c' (max w 600) (max h 400)
   \<and> update_screen_size (update_screen_size c w h) w h = update_screen_size c w h
   \<and> scale_speed c base = base * real_of_int (SCREEN_WIDTH c) / 800
   \<and> scale_speed (update_screen_size c w h) base = base * real_of_int (max w 600) / 800"
  by (simp add: update_screen_size_eq scale_speed_def)

section \<open>The ball\<close>

text \<open>
  Claim C10. \<open>Ball.move\<close> leaves \<open>velocity_x\<close>, \<open>radius\<close>, \<open>base_speed\<close>,
  \<open>initial_x\<close> and \<open>initial_y\<close> as they are and advances \<open>x\<close> by exactly
  \<open>velocity_x\<close>; apart from \<open>x\<close>, only \<open>y\<close> and \<open>velocity_y\<close> can differ afterwards.
\<close>

theorem ball_move_frame:
  "velocity_x (Ball_move b sw sh) = velocity_x b
   \<and> radius (Ball_move b sw sh) = radius b
   \<and> base_speed (Ball_move b sw sh) = base_speed b
   \<and> initial_x (Ball_move b sw sh) = initial_x b
   \<and> initial_y (Ball_move b sw sh) = initial_y b
   \<and> x (Ball_move b sw sh) = x b + velocity_x b
   \<and> Ball_move b sw sh =
       b\<lparr>x := x b + velocity_x b, y := y (Ball_move b sw sh),
         velocity_y := velocity_y (Ball_move b sw sh)\<rparr>"
  by (simp add: Ball_move_def Let_def)

text \<open>
  Claim C6. After \<open>reset_position\<close> with a direction among \<open>-1\<close>, \<open>0\<close>, \<open>1\<close>, where
  for \<open>0\<close> the module \<open>random\<close> chooses \<open>-1\<close> or \<open>1\<close>, the ball is at its home
  position and the magnitude of \<open>velocity_x\<close> is exactly the base speed, a speed being
  non-negative. This is the state of the ball also when the call raises, which it does
  only for a target given to a ball whose home is at \<open>x = 0\<close>.
\<close>

theorem reset_position_home:
  assumes "direction \<in> {- 1, 0, 1}"
    and "random_choice (rnd 0) [- 1, 1] \<in> {- 1, 1}"
    and "0 \<le> base_speed b"
  shows "x (final (reset_position b direction target rnd)) = initial_x b
       \<and> y (final (reset_position b direction target rnd)) = initial_y b
       \<and> \<bar>velocity_x (final (reset_position b direction target rnd))\<bar> = base_speed b
       \<and> initial_x (final (reset_position b direction target rnd)) = initial_x b
       \<and> initial_y (final (reset_position b direction target rnd)) = initial_y b
       \<and> base_speed (final (reset_position b direction target rnd)) = base_speed b
       \<and> (returns (reset_position b direction target rnd)
            \<longleftrightarrow> target = None \<or> initial_x b \<noteq> 0)"
  using assms
  by (auto simp: reset_position_def Let_def split: option.splits)

theorem reset_position_home_witness:
  "(0::int) \<in> {- 1, 0, 1}
   \<and> random_choice (low_rnd 0) [- 1, 1] \<in> {- 1, 1}
   \<and> 0 \<le> base_speed edge_ball
   \<and> x (final (reset_position edge_ball 0 None low_rnd)) = 400
   \<and> y (final (reset_position edge_ball 0 None low_rnd)) = 300
   \<and> \<bar>velocity_x (final (reset_position edge_ball 0 None low_rnd))\<bar> = 3.5
   \<and> returns (reset_position edge_ball 0 None low_rnd)"
  using reset_position_home [of 0 low_rnd edge_ball None]
  by (simp add: low_rnd_def edge_ball_def Ball_init_def)

lemma py_int_nonzero: "py_int r \<noteq> 0 \<Longrightarrow> r \<noteq> 0"
  by (auto simp: py_int_def)

lemma collision_height_nonzero: "check_paddle_collision b p \<Longrightarrow> height p \<noteq> 0"
  by (auto simp: check_paddle_collision_def colliderect_def get_rect_def pygame_Rect_def
      Let_def dest: py_int_nonzero split: if_splits)

lemma bounce_returns:
  "height p \<noteq> 0 \<Longrightarrow>
   bounce_off_paddle b p =
     Returned (b\<lparr>velocity_x := - velocity_x b,
                 velocity_y :=
                   (y b - (y p + height p / 2)) / (height p / 2) * base_speed b * 0.8\<rparr>)"
  by (simp add: bounce_off_paddle_def Let_def)

lemma hit_pos_bound:
  fixes c h v s :: real
  assumes "0 < h" and "c \<le> v" and "v \<le> c + h" and "0 \<le> s"
  shows "\<bar>(v - (c + h / 2)) / (h / 2) * s * 0.8\<bar> \<le> 0.8 * s"
proof -
  have "(v - (c + h / 2)) / (h / 2) \<le> 1"
    using assms by (simp add: field_simps)
  moreover have "- 1 \<le> (v - (c + h / 2)) / (h / 2)"
    using assms by (simp add: field_simps)
  ultimately have "\<bar>(v - (c + h / 2)) / (h / 2)\<bar> \<le> 1"
    by linarith
  then have "\<bar>(v - (c + h / 2)) / (h / 2)\<bar> * (s * 0.8) \<le> 1 * (s * 0.8)"
    using assms(4) by (intro mult_right_mono) auto
  then show ?thesis
    using assms(4) by (simp add: abs_mult)
qed

text \<open>
  Claim C2, as stated, fails: the collision test uses the square around the ball, so a
  ball whose centre is above or below the paddle still collides, and the hit position
  then lies outside \<open>[-1, 1]\<close>. Here the ball's centre is 5 above the paddle's top edge
  and the vertical speed after the bounce is 3.08, more than 0.8 times the base speed
  3.5.
\<close>

theorem bounce_speed_bound_counterexample:
  "check_paddle_collision edge_ball edge_paddle
   \<and> velocity_x edge_ball \<noteq> 0
   \<and> velocity_y (final (bounce_off_paddle edge_ball edge_paddle)) = - 3.08
   \<and> \<not> \<bar>velocity_y (final (bounce_off_paddle edge_ball edge_paddle))\<bar>
         \<le> 0.8 * base_speed edge_ball"
  by (simp add: edge_ball_def edge_paddle_def Ball_init_def Paddle_init_def
      check_paddle_collision_def colliderect_def get_rect_def pygame_Rect_def py_int_def
      bounce_off_paddle_def Let_def)

text \<open>
  Claim C2, amended. When the ball collides with the paddle and \<open>velocity_x\<close> is
  nonzero, \<open>bounce_off_paddle\<close> returns, the sign of \<open>velocity_x\<close> flips, and
  \<open>velocity_y\<close> is the hit offset over half the paddle height times 0.8 times the base
  speed, whatever the incoming vertical velocity was. Its magnitude is at most 0.8
  times the base speed when the ball's centre lies between the paddle's top and bottom
  edge.
\<close>

theorem bounce_off_paddle_collision:
  assumes "check_paddle_collision b p" and "velocity_x b \<noteq> 0"
  shows "returns (bounce_off_paddle b p)
       \<and> velocity_x (final (bounce_off_paddle b p)) = - velocity_x b
       \<and> sgn (velocity_x (final (bounce_off_paddle b p))) = - sgn (velocity_x b)
       \<and> velocity_y (final (bounce_off_paddle b p)) =
           ((y b - (y p + height p / 2)) / (height p / 2)) * base_speed b * 0.8
       \<and> velocity_y (final (bounce_off_paddle (b\<lparr>velocity_y := v\<rparr>) p)) =
           velocity_y (final (bounce_off_paddle b p))
       \<and> (y p \<le> y b \<and> y b \<le> y p + height p \<and> 0 \<le> base_speed b \<longrightarrow>
            \<bar>velocity_y (final (bounce_off_paddle b p))\<bar> \<le> 0.8 * base_speed b)"
proof -
  have h: "height p \<noteq> 0"
    using assms(1) by (rule collision_height_nonzero)
  have bound: "\<bar>(y b - (y p + height p / 2)) / (height p / 2) * base_speed b * 0.8\<bar>
      \<le> 0.8 * base_speed b"
    if "y p \<le> y b \<and> y b \<le> y p + height p \<and> 0 \<le> base_speed b"
  proof -
    from that h have "0 < height p" by linarith
    with that show ?thesis by (intro hit_pos_bound) auto
  qed
  show ?thesis
    using bound by (simp add: bounce_returns [OF h] sgn_minus)
qed

theorem bounce_off_paddle_collision_witness:
  "check_paddle_collision (edge_ball\<lparr>y := 120\<rparr>) edge_paddle
   \<and> velocity_x (edge_ball\<lparr>y := 120\<rparr>) \<noteq> 0
   \<and> y edge_paddle \<le> y (edge_ball\<lparr>y := 120\<rparr>)
   \<and> y (edge_ball\<lparr>y := 120\<rparr>) \<le> y edge_paddle + height edge_paddle
   \<and> 0 \<le> base_speed (edge_ball\<lparr>y := 120\<rparr>)
   \<and> velocity_x (final (bounce_off_paddle (edge_ball\<lparr>y := 120\<rparr>) edge_paddle)) = 3.5
   \<and> \<bar>velocity_y (final (bounce_off_paddle (edge_ball\<lparr>y := 120\<rparr>) edge_paddle))\<bar>
        \<le> 0.8 * 3.5"
proof -
  have c: "check_paddle_collision (edge_ball\<lparr>y := 120\<rparr>) edge_paddle"
    by (simp add: edge_ball_def edge_paddle_def Ball_init_def Paddle_init_def
        check_paddle_collision_def colliderect_def get_rect_def pygame_Rect_def py_int_def)
  have v: "velocity_x (edge_ball\<lparr>y := 120\<rparr>) \<noteq> 0"
    by (simp add: edge_ball_def Ball_init_def)
  show ?thesis
    using c v bounce_off_paddle_collision [OF c v, of 0]
    by (simp add: edge_ball_def edge_paddle_def Ball_init_def Paddle_init_def)
qed

section \<open>The simulation tick\<close>

lemma player_direction_eq:
  "player_direction keys = (if ''up'' \<in> keys then - 1 else if ''down'' \<in> keys then 1 else 0)"
  by (simp add: player_direction_def)

lemma park_ball_frame:
  "player_paddle (park_ball g b who now) = player_paddle g"
  "bot_paddle (park_ball g b who now) = bot_paddle g"
  "config (park_ball g b who now) = config g"
  "state (park_ball g b who now) = state g"
  "score_manager (park_ball g b who now) = score_manager g"
  by (simp_all add: park_ball_def Let_def)

lemma score_and_check_frame:
  "player_paddle (score_and_check g b now) = player_paddle g"
  "bot_paddle (score_and_check g b now) = bot_paddle g"
  "config (score_and_check g b now) = config g"
  by (simp_all add: score_and_check_def Let_def park_ball_frame split: option.splits)

lemma update_bot_frame:
  "player_paddle (final (update_bot g rnd)) = player_paddle g"
  "config (final (update_bot g rnd)) = config g"
  "state (final (update_bot g rnd)) = state g"
  "score_manager (final (update_bot g rnd)) = score_manager g"
  by (simp_all add: update_bot_def Let_def split: option.splits prod.splits)

lemma update_active_player:
  assumes "state g = PLAYING" and "\<not> waiting_for_reset g" and "player_paddle g = Some pp"
  shows "player_paddle (final (update g now rnd)) =
           Some (Paddle_move pp (player_direction (keys_pressed g)) (SCREEN_HEIGHT (config g)))"
proof -
  let ?g1 = "g\<lparr>player_paddle := Some (Paddle_move pp (player_direction (keys_pressed g)) (SCREEN_HEIGHT (config g)))\<rparr>"
  have p1: "player_paddle (final (update_bot ?g1 rnd)) = player_paddle ?g1"
    by (rule update_bot_frame)
  show ?thesis
    using assms p1
    by (auto simp: update_def Let_def score_and_check_frame split: option.splits result.splits)
qed


lemma update_not_playing: "state g \<noteq> PLAYING \<Longrightarrow> update g now rnd = Returned g"
  by (simp add: update_def)

lemma update_waiting_early:
  "state g = PLAYING \<Longrightarrow> waiting_for_reset g \<Longrightarrow> now - reset_timer g < 2000 \<Longrightarrow>
   update g now rnd = Returned g"
  by (simp add: update_def update_waiting_def RESET_DELAY_MS_def)

lemma reset_position_aimed:
  "direction = - 1 \<or> direction = 1 \<Longrightarrow> initial_x b \<noteq> 0 \<Longrightarrow>
   reset_position b direction (Some t) rnd =
     Returned (b\<lparr>x := initial_x b, y := initial_y b,
                 velocity_x := base_speed b * real_of_int direction,
                 velocity_y := (t - initial_y b) / \<bar>initial_x b\<bar> * base_speed b * 0.6\<rparr>)"
  by (auto simp: reset_position_def Let_def)

lemma update_waiting_relaunch:
  assumes "state g = PLAYING" and "waiting_for_reset g" and "now - reset_timer g \<ge> 2000"
    and "player_paddle g = Some pp" and "bot_paddle g = Some bp" and "ball g = Some b"
    and "initial_x b \<noteq> 0"
  shows "update g now rnd =
     Returned (g\<lparr>ball := Some (b\<lparr>x := initial_x b, y := initial_y b,
        velocity_x := (if last_scorer g = Some ''bot'' then - base_speed b else base_speed b),
        velocity_y :=
          ((if last_scorer g = Some ''bot'' then y pp + height pp / 2
            else y bp + height bp / 2) - initial_y b)
            / \<bar>initial_x b\<bar> * base_speed b * 0.6\<rparr>),
        waiting_for_reset := False\<rparr>)"
  using assms
  by (simp add: update_def update_waiting_def RESET_DELAY_MS_def reset_position_aimed)

lemma paddle_move_within:
  "height p \<le> real_of_int sh \<Longrightarrow> within_screen (Paddle_move p d sh) sh"
  by (simp add: Paddle_move_def Let_def within_screen_def)

lemma smooth_move_to_within:
  "height p \<le> real_of_int sh \<Longrightarrow> within_screen (smooth_move_to p t s sh) sh"
  by (simp add: smooth_move_to_def Let_def within_screen_def)

lemma bot_update_within:
  "height p \<le> real_of_int sh \<Longrightarrow>
   within_screen (snd (BotController_update bc p b sh rnd)) sh"
  by (simp add: BotController_update_def Let_def smooth_move_to_within split: prod.splits)

lemma update_bot_within:
  assumes "paddles_within g"
  shows "paddles_within (final (update_bot g rnd))"
proof -
  have w: "within_screen (snd (BotController_update bc bp b (SCREEN_HEIGHT (config g)) rnd))
             (SCREEN_HEIGHT (config g))" if "bot_paddle g = Some bp" for b bc bp
    using assms that by (intro bot_update_within) (simp add: paddles_within_def within_screen_def)
  have v: "within_screen (smooth_move_to bp t s (SCREEN_HEIGHT (config g)))
             (SCREEN_HEIGHT (config g))" if "bot_paddle g = Some bp" for bp t s
    using assms that
    by (intro smooth_move_to_within) (simp add: paddles_within_def within_screen_def)
  show ?thesis
    using assms w v
    by (auto simp: update_bot_def paddles_within_def case_prod_beta Let_def split: option.splits)
qed

lemma score_and_check_within:
  "paddles_within (score_and_check g b now) = paddles_within g"
  by (simp add: paddles_within_def score_and_check_frame)

lemma update_waiting_frame:
  "player_paddle (final (update_waiting g now rnd)) = player_paddle g"
  "bot_paddle (final (update_waiting g now rnd)) = bot_paddle g"
  "config (final (update_waiting g now rnd)) = config g"
  "state (final (update_waiting g now rnd)) = state g"
  "score_manager (final (update_waiting g now rnd)) = score_manager g"
  by (simp_all add: update_waiting_def Let_def split: option.splits result.splits prod.splits)

lemma update_within:
  assumes "paddles_within g"
  shows "paddles_within (final (update g now rnd))"
proof (cases "state g = PLAYING \<and> \<not> waiting_for_reset g")
  case False
  then show ?thesis
    using assms by (auto simp: update_def paddles_within_def update_waiting_frame)
next
  case True
  show ?thesis
  proof (cases "player_paddle g")
    case None
    then show ?thesis using assms True by (simp add: update_def)
  next
    case (Some pp)
    let ?g1 = "g\<lparr>player_paddle := Some (Paddle_move pp (player_direction (keys_pressed g))
                     (SCREEN_HEIGHT (config g)))\<rparr>"
    have "height pp \<le> real_of_int (SCREEN_HEIGHT (config g))"
      using assms Some by (simp add: paddles_within_def within_screen_def)
    then have "paddles_within ?g1"
      using assms by (simp add: paddles_within_def paddle_move_within)
    then have w: "paddles_within (final (update_bot ?g1 rnd))"
      by (rule update_bot_within)
    have k: "paddles_within (h\<lparr>ball := v\<rparr>) = paddles_within h" for h v
      by (simp add: paddles_within_def)
    show ?thesis
      using True Some w
      by (auto simp: update_def Let_def score_and_check_within k
          split: option.splits result.splits)
  qed
qed

section \<open>Input events and the session state\<close>

lemma initialize_returns:
  "\<exists>g'. initialize_game_objects g d rnd = Returned g'"
  by (simp add: initialize_game_objects_def reset_position_def Let_def case_prod_beta)

lemma initialize_frame:
  "state (final (initialize_game_objects g d rnd)) = state g"
  "config (final (initialize_game_objects g d rnd)) = config g"
  "menu_buttons (final (initialize_game_objects g d rnd)) = menu_buttons g"
  "play_again_button (final (initialize_game_objects g d rnd)) = play_again_button g"
  by (simp_all add: initialize_game_objects_def reset_position_def Let_def case_prod_beta)

lemma click_menu_state:
  "state (final (click_menu g bs pos rnd)) = state g
   \<or> (state (final (click_menu g bs pos rnd)) = PLAYING
       \<and> (\<exists>(r, d) \<in> set bs. collidepoint r pos))"
proof (induction bs)
  case Nil
  then show ?case by simp
next
  case (Cons a bs)
  obtain r d where a: "a = (r, d)" by (cases a)
  obtain g' where i: "initialize_game_objects g d rnd = Returned g'"
    using initialize_returns by blast
  show ?case
    using Cons i a by auto
qed

lemma resize_game_objects_frame:
  "state (final (resize_game_objects g)) = state g"
  "config (final (resize_game_objects g)) = config g"
  "score_manager (final (resize_game_objects g)) = score_manager g"
  "menu_buttons (final (resize_game_objects g)) = menu_buttons g"
  "play_again_button (final (resize_game_objects g)) = play_again_button g"
  by (simp_all add: resize_game_objects_def Let_def split: option.splits)

lemma on_videoresize_frame:
  "state (final (on_videoresize g w h)) = state g"
  "score_manager (final (on_videoresize g w h)) = score_manager g"
  "menu_buttons (final (on_videoresize g w h)) = menu_buttons g"
  "play_again_button (final (on_videoresize g w h)) = play_again_button g"
  by (simp_all add: on_videoresize_def Let_def resize_game_objects_frame)


lemma on_state_event_state:
  "state (final (on_state_event g ev pos rnd)) = state g
   \<or> (state g = MENU \<and> state (final (on_state_event g ev pos rnd)) = PLAYING
       \<and> ev = MOUSEBUTTONDOWN \<and> (\<exists>(r, d) \<in> set (menu_buttons g). collidepoint r pos))
   \<or> (state g = PLAYING \<and> state (final (on_state_event g ev pos rnd)) = PAUSED
       \<and> ev = KEYDOWN K_ESCAPE)
   \<or> (state g = GAME_OVER \<and> state (final (on_state_event g ev pos rnd)) = MENU
       \<and> ev = MOUSEBUTTONDOWN
       \<and> (\<exists>r. play_again_button g = Some r \<and> collidepoint r pos))
   \<or> state g = PAUSED"
proof (cases "state g")
  case MENU
  then show ?thesis
    using click_menu_state [of g "menu_buttons g" pos rnd]
    by (auto simp: on_state_event_def)
next
  case PLAYING
  then show ?thesis
    by (auto simp: on_state_event_def split: Event.splits)
next
  case PAUSED
  then show ?thesis by simp
next
  case GAME_OVER
  then show ?thesis
    by (auto simp: on_state_event_def split: option.splits)
qed

lemma on_state_event_resize:
  "state (final (on_state_event g (VIDEORESIZE w h) pos rnd)) = state g"
  by (cases "state g") (simp_all add: on_state_event_def)

lemma handle_event_state:
  "state (final (handle_event g ev pos rnd)) = state g
   \<or> (state g = MENU \<and> state (final (handle_event g ev pos rnd)) = PLAYING
       \<and> ev = MOUSEBUTTONDOWN \<and> (\<exists>(r, d) \<in> set (menu_buttons g). collidepoint r pos))
   \<or> (state g = PLAYING \<and> state (final (handle_event g ev pos rnd)) = PAUSED
       \<and> ev = KEYDOWN K_ESCAPE)
   \<or> (state g = GAME_OVER \<and> state (final (handle_event g ev pos rnd)) = MENU
       \<and> ev = MOUSEBUTTONDOWN
       \<and> (\<exists>r. play_again_button g = Some r \<and> collidepoint r pos))
   \<or> state g = PAUSED"
proof (cases "\<exists>w h. ev = VIDEORESIZE w h")
  case True
  then obtain w h where ev: "ev = VIDEORESIZE w h" by blast
  show ?thesis
  proof (cases "on_videoresize g w h")
    case (Returned g')
    then have "state g' = state g"
      using on_videoresize_frame(1) [of g w h] by simp
    then show ?thesis
      using Returned ev on_state_event_resize [of g' w h pos rnd]
      by (simp add: handle_event_def)
  next
    case (Raised e g')
    then have "state g' = state g"
      using on_videoresize_frame(1) [of g w h] by simp
    then show ?thesis
      using Raised ev by (simp add: handle_event_def)
  qed
next
  case False
  then have "handle_event g ev pos rnd = on_state_event g ev pos rnd"
    by (cases ev) (simp_all add: handle_event_def)
  then show ?thesis
    using on_state_event_state [of g ev pos rnd] by simp
qed

lemma score_and_check_state:
  "state (score_and_check g b now) = state g
   \<or> (state (score_and_check g b now) = GAME_OVER
       \<and> check_winner (score_manager (score_and_check g b now)) \<noteq> None
       \<and> winner (score_and_check g b now)
           = check_winner (score_manager (score_and_check g b now)))"
  by (auto simp: score_and_check_def Let_def park_ball_frame park_ball_def
      split: option.splits)

lemma update_state:
  "state (final (update g now rnd)) = state g
   \<or> (state g = PLAYING \<and> state (final (update g now rnd)) = GAME_OVER
       \<and> check_winner (score_manager (final (update g now rnd))) \<noteq> None
       \<and> winner (final (update g now rnd))
           = check_winner (score_manager (final (update g now rnd))))"
proof (cases "state g = PLAYING \<and> \<not> waiting_for_reset g")
  case False
  then show ?thesis
    by (auto simp: update_def update_waiting_frame)
next
  case True
  show ?thesis
  proof (cases "player_paddle g")
    case None
    then show ?thesis using True by (simp add: update_def)
  next
    case (Some pp)
    let ?g1 = "g\<lparr>player_paddle := Some (Paddle_move pp (player_direction (keys_pressed g))
                     (SCREEN_HEIGHT (config g)))\<rparr>"
    let ?pp = "Paddle_move pp (player_direction (keys_pressed g)) (SCREEN_HEIGHT (config g))"
    have s1: "state (final (update_bot ?g1 rnd)) = state g"
      by (simp add: update_bot_frame)
    show ?thesis
    proof (cases "update_bot ?g1 rnd")
      case (Raised e g')
      then show ?thesis
        using True Some s1 by (simp add: update_def Let_def)
    next
      case (Returned g2)
      then have s2: "state g2 = state g"
        using s1 by simp
      show ?thesis
      proof (cases "ball g2")
        case None
        then show ?thesis
          using True Some Returned s2 by (simp add: update_def Let_def)
      next
        case b: (Some b)
        show ?thesis
        proof (cases "bot_paddle g2")
          case None
          then show ?thesis
            using True Some Returned s2 b by (simp add: update_def Let_def)
        next
          case bp: (Some bp)
          show ?thesis
          proof (cases "collide_paddles g2
                          (Ball_move b (SCREEN_WIDTH (config g2)) (SCREEN_HEIGHT (config g2)))
                          ?pp bp")
            case (Raised e b')
            then show ?thesis
              using True Some Returned s2 b bp by (simp add: update_def Let_def)
          next
            case r: (Returned b')
            show ?thesis
              using True Some Returned s2 b bp r
                score_and_check_state [of "g2\<lparr>ball := Some b'\<rparr>" b' now]
              by (simp add: update_def Let_def)
          qed
        qed
      qed
    qed
  qed
qed

lemma render_state: "state (final (render g)) = state g"
  by (simp add: render_def)

lemma step_allowed:
  "(state g = MENU \<longrightarrow>
      state (final (step g s)) = MENU
      \<or> (state (final (step g s)) = PLAYING \<and> difficulty_selected g s))
   \<and> (state g = PLAYING \<longrightarrow>
      state (final (step g s)) = PLAYING
      \<or> (state (final (step g s)) = GAME_OVER \<and> win_detected s (final (step g s)))
      \<or> (state (final (step g s)) = PAUSED \<and> pause_trigger s))
   \<and> (state g = GAME_OVER \<longrightarrow>
      state (final (step g s)) = GAME_OVER
      \<or> (state (final (step g s)) = MENU \<and> play_again_trigger g s))"
proof (cases s)
  case (Input ev pos rnd)
  show ?thesis
  proof (cases "ev = QUIT")
    case True
    then show ?thesis using Input by simp
  next
    case False
    then show ?thesis
      using Input handle_event_state [of g ev pos rnd] by auto
  qed
next
  case (Tick now rnd)
  then show ?thesis
    using update_state [of g now rnd] by auto
next
  case Frame
  then show ?thesis
    by (simp add: render_state)
qed

text \<open>
  Claim C7. Along every sequence of input events, ticks and frames, the session state
  changes only as follows: from \<open>MENU\<close> only to \<open>PLAYING\<close>, and only by a mouse click
  on a difficulty button; from \<open>PLAYING\<close> only to \<open>GAME_OVER\<close>, by the winner check of
  a tick, or to \<open>PAUSED\<close>, by the escape key; from \<open>GAME_OVER\<close> only to \<open>MENU\<close>, by a
  click on the play-again button, and so never directly to \<open>PLAYING\<close>.
\<close>

theorem session_state_machine:
  "\<forall>(g1, s, g2) \<in> set (transitions g steps).
     (state g1 = MENU \<longrightarrow>
        state g2 = MENU \<or> (state g2 = PLAYING \<and> difficulty_selected g1 s))
     \<and> (state g1 = PLAYING \<longrightarrow>
        state g2 = PLAYING
        \<or> (state g2 = GAME_OVER \<and> win_detected s g2)
        \<or> (state g2 = PAUSED \<and> pause_trigger s))
     \<and> (state g1 = GAME_OVER \<longrightarrow>
        state g2 = GAME_OVER \<or> (state g2 = MENU \<and> play_again_trigger g1 s))"
proof (induction steps arbitrary: g)
  case Nil
  then show ?case by simp
next
  case (Cons s steps)
  show ?case
  proof (cases "step g s")
    case (Returned g')
    then show ?thesis
      using Cons [of g'] step_allowed [of g s] by simp
  next
    case (Raised e g')
    then show ?thesis
      using step_allowed [of g s] by simp
  qed
qed

lemma py_int_numeral [simp]: "py_int (numeral n) = numeral n" "py_int 0 = 0"
  by (simp_all add: py_int_def)

lemma init_eq:
  "PongGame_init (1920, 1080) =
     \<lparr>config =
        \<lparr>SCREEN_WIDTH = 800, SCREEN_HEIGHT = 600, PADDLE_WIDTH = 15, PADDLE_HEIGHT = 100,
         PADDLE_OFFSET = 30, PLAYER_SPEED = 7, BALL_RADIUS = 8, SCORE_FONT_SIZE = 72,
         SCORE_Y_POSITION = 100, SCORE_X_OFFSET = 100, BUTTON_WIDTH = 200,
         BUTTON_HEIGHT = 60, BUTTON_SPACING = 30, MENU_FONT_SIZE = 48,
         BUTTON_FONT_SIZE = 32, PAUSE_FONT_SIZE = 64\<rparr>,
      screen = (800, 600), state = MENU,
      score_manager = \<lparr>player_score = 0, bot_score = 0, winning_score = 10\<rparr>,
      player_paddle = None, bot_paddle = None, ball = None, bot_controller = None,
      keys_pressed = {}, current_difficulty = None, menu_buttons = [],
      pause_buttons = Map.empty, play_again_button = None, winner = None,
      reset_timer = 0, waiting_for_reset = False, last_scorer = None,
      desktop = (1920, 1080)\<rparr>"
  by (simp add: PongGame_init_def GameConfig_init_def update_screen_size_eq py_int_def
      Let_def ScoreManager_init_def WINNING_SCORE_def set_mode_def)

lemma easy_match_eq:
  "easy_match =
     \<lparr>config =
        \<lparr>SCREEN_WIDTH = 800, SCREEN_HEIGHT = 600, PADDLE_WIDTH = 15, PADDLE_HEIGHT = 100,
         PADDLE_OFFSET = 30, PLAYER_SPEED = 7, BALL_RADIUS = 8, SCORE_FONT_SIZE = 72,
         SCORE_Y_POSITION = 100, SCORE_X_OFFSET = 100, BUTTON_WIDTH = 200,
         BUTTON_HEIGHT = 60, BUTTON_SPACING = 30, MENU_FONT_SIZE = 48,
         BUTTON_FONT_SIZE = 32, PAUSE_FONT_SIZE = 64\<rparr>,
      screen = (800, 600), state = PLAYING,
      score_manager = \<lparr>player_score = 0, bot_score = 0, winning_score = 10\<rparr>,
      player_paddle =
        Some \<lparr>x = 30, y = 250, width = 15, height = 100, speed = 7, velocity = 0,
              target_y = 250\<rparr>,
      bot_paddle =
        Some \<lparr>x = 755, y = 250, width = 15, height = 100, speed = 11 / 5, velocity = 0,
              target_y = 250\<rparr>,
      ball =
        Some \<lparr>x = 400, y = 300, width = 16, height = 16, radius = 8, base_speed = 7 / 2,
              velocity_x = - (7 / 2), velocity_y = - (7 / 4), initial_x = 400,
              initial_y = 300\<rparr>,
      bot_controller =
        Some \<lparr>difficulty = EASY, smoothing_factor = 1 / 25, accuracy = 13 / 20,
              reaction_delay = 0, max_reaction_delay = 14\<rparr>,
      keys_pressed = {}, current_difficulty = Some EASY, menu_buttons = [],
      pause_buttons = Map.empty, play_again_button = None, winner = None,
      reset_timer = 0, waiting_for_reset = False, last_scorer = None,
      desktop = (1920, 1080)\<rparr>"
  by (simp add: easy_match_def init_eq initialize_game_objects_def Let_def
      get_difficulty_settings_def scale_speed_def Paddle_init_def Ball_init_def
      reset_position_def low_rnd_def BotController_init_def ScoreManager_reset_def)


lemmas eval_defs =
  render_def draw_menu_def draw_pause_menu_def draw_game_over_def button_rect_at_def
  handle_event_def on_state_event_def on_videoresize_def set_mode_def resize_game_objects_def
  collidepoint_def rect_bool_def button_hit_def
  initialize_game_objects_def get_difficulty_settings_def scale_speed_def
  Paddle_init_def Ball_init_def reset_position_def BotController_init_def
  ScoreManager_reset_def low_rnd_def update_def update_waiting_def update_bot_def
  BotController_update_def smooth_move_to_def Paddle_move_def Ball_move_def
  player_direction_def collide_paddles_def check_paddle_collision_def colliderect_def
  get_rect_def pygame_Rect_def bounce_off_paddle_def score_and_check_def park_ball_def
  check_winner_def increment_bot_score_def increment_player_score_def
  update_screen_size_eq get_width_def get_height_def RESET_DELAY_MS_def
  py_int_def Let_def

lemma run_from_menu:
  "map (\<lambda>(g1, s, g2). (state g1, state g2))
     (transitions (PongGame_init (1920, 1080))
        [Frame, Input MOUSEBUTTONDOWN (400, 250) low_rnd,
         Input (KEYDOWN K_ESCAPE) (0, 0) low_rnd])
   = [(MENU, MENU), (MENU, PLAYING), (PLAYING, PAUSED)]"
  by (simp add: init_eq eval_defs)

lemma run_match_point:
  "map (\<lambda>(g1, s, g2). (state g1, state g2)) (transitions match_point [Tick 5000 low_rnd])
   = [(PLAYING, GAME_OVER)]"
  by (simp add: match_point_def easy_match_eq eval_defs)

lemma over_game_eq:
  "over_game = easy_match\<lparr>state := GAME_OVER, winner := Some ''Bot'',
      play_again_button := Some (Rect 300 300 200 60)\<rparr>"
  by (simp add: over_game_def easy_match_eq eval_defs)

lemma run_game_over:
  "map (\<lambda>(g1, s, g2). (state g1, state g2))
     (transitions over_game [Input MOUSEBUTTONDOWN (400, 320) low_rnd])
   = [(GAME_OVER, MENU)]"
  by (simp add: over_game_eq easy_match_eq eval_defs)

theorem session_state_machine_witness:
  "map (\<lambda>(g1, s, g2). (state g1, state g2))
     (transitions (PongGame_init (1920, 1080))
        [Frame, Input MOUSEBUTTONDOWN (400, 250) low_rnd,
         Input (KEYDOWN K_ESCAPE) (0, 0) low_rnd])
   = [(MENU, MENU), (MENU, PLAYING), (PLAYING, PAUSED)]
   \<and> map (\<lambda>(g1, s, g2). (state g1, state g2)) (transitions match_point [Tick 5000 low_rnd])
     = [(PLAYING, GAME_OVER)]
   \<and> map (\<lambda>(g1, s, g2). (state g1, state g2))
       (transitions over_game [Input MOUSEBUTTONDOWN (400, 320) low_rnd])
     = [(GAME_OVER, MENU)]"
  using session_state_machine [of "PongGame_init (1920, 1080)"
          "[Frame, Input MOUSEBUTTONDOWN (400, 250) low_rnd,
            Input (KEYDOWN K_ESCAPE) (0, 0) low_rnd]"]
    session_state_machine [of match_point "[Tick 5000 low_rnd]"]
    session_state_machine [of over_game "[Input MOUSEBUTTONDOWN (400, 320) low_rnd]"]
  by (simp only: run_from_menu run_match_point run_game_over)

section \<open>Paddles inside the viewport\<close>

lemma paddle_height_le:
  "0 \<le> h \<Longrightarrow> 0 \<le> py_int (real_of_int h * 0.1667) \<and> py_int (real_of_int h * 0.1667) \<le> h"
  by (simp add: py_int_def floor_le_iff) 

lemma resolved_fields:
  assumes "resolved cfg"
  shows "400 \<le> SCREEN_HEIGHT cfg"
    and "PADDLE_HEIGHT cfg = py_int (real_of_int (SCREEN_HEIGHT cfg) * 0.1667)"
proof -
  have e: "update_screen_size cfg (SCREEN_WIDTH cfg) (SCREEN_HEIGHT cfg) = cfg"
    using assms by (simp add: resolved_def)
  have "SCREEN_HEIGHT (update_screen_size cfg (SCREEN_WIDTH cfg) (SCREEN_HEIGHT cfg))
          = max (SCREEN_HEIGHT cfg) 400"
    by (simp add: update_screen_size_eq)
  then show h: "400 \<le> SCREEN_HEIGHT cfg"
    using e by simp
  have "PADDLE_HEIGHT (update_screen_size cfg (SCREEN_WIDTH cfg) (SCREEN_HEIGHT cfg))
          = py_int (real_of_int (max (SCREEN_HEIGHT cfg) 400) * 0.1667)"
    by (simp add: update_screen_size_eq)
  then show "PADDLE_HEIGHT cfg = py_int (real_of_int (SCREEN_HEIGHT cfg) * 0.1667)"
    using e h by (simp add: max_def)
qed

lemma resolved_update: "resolved (update_screen_size c w h)"
  by (simp add: resolved_def update_screen_size_eq)

lemma start_position_within:
  fixes H PH :: int
  assumes "0 \<le> PH" and "PH \<le> H"
  shows "within_screen (Paddle_init x0 (real_of_int (H div 2 - PH div 2)) w0 (real_of_int PH) s0) H"
proof -
  have "0 \<le> H div 2 - PH div 2" and "H div 2 - PH div 2 \<le> H - PH"
    using assms by presburger+
  then have "0 \<le> real_of_int (H div 2 - PH div 2)"
    and "real_of_int (H div 2 - PH div 2) \<le> real_of_int (H - PH)"
    by (simp_all only: of_int_le_iff of_int_0_le_iff)
  then show ?thesis
    using assms by (simp add: within_screen_def Paddle_init_def)
qed

lemma initialize_within:
  assumes "resolved (config g)"
  shows "paddles_within (final (initialize_game_objects g d rnd))"
proof -
  let ?H = "SCREEN_HEIGHT (config g)"
  let ?PH = "PADDLE_HEIGHT (config g)"
  have "0 \<le> ?PH \<and> ?PH \<le> ?H"
    using resolved_fields [OF assms] paddle_height_le [of ?H] by simp
  then have w: "within_screen (Paddle_init x0 (real_of_int (?H div 2 - ?PH div 2)) w0
                  (real_of_int ?PH) s0) ?H" for x0 w0 s0
    by (intro start_position_within) auto
  show ?thesis
    using w
    by (simp add: initialize_game_objects_def reset_position_def Let_def case_prod_beta
        paddles_within_def)
qed

lemma click_menu_within:
  assumes "resolved (config g)" and "paddles_within g"
  shows "paddles_within (final (click_menu g bs pos rnd))
       \<and> config (final (click_menu g bs pos rnd)) = config g"
proof (induction bs)
  case Nil
  then show ?case using assms by simp
next
  case (Cons a bs)
  obtain r d where a: "a = (r, d)" by (cases a)
  obtain g' where i: "initialize_game_objects g d rnd = Returned g'"
    using initialize_returns by blast
  have "paddles_within g'" and "config g' = config g"
    using initialize_within [OF assms(1), of d rnd] initialize_frame(2) [of g d rnd] i
    by simp_all
  then have "paddles_within (g'\<lparr>state := PLAYING\<rparr>)"
    by (simp add: paddles_within_def)
  then show ?case
    using Cons i a \<open>config g' = config g\<close> by auto
qed

lemma on_state_event_within:
  assumes "resolved (config g)" and "paddles_within g"
  shows "paddles_within (final (on_state_event g ev pos rnd))
       \<and> config (final (on_state_event g ev pos rnd)) = config g"
proof (cases "state g = MENU \<and> ev = MOUSEBUTTONDOWN")
  case True
  then show ?thesis
    using click_menu_within [OF assms] by (simp add: on_state_event_def)
next
  case False
  have k: "paddles_within (g\<lparr>state := v\<rparr>)" "paddles_within (g\<lparr>keys_pressed := u\<rparr>)" for v u
    using assms(2) by (simp_all add: paddles_within_def)
  show ?thesis
    using False assms(2) k
    by (auto simp: on_state_event_def split: option.splits Event.splits)
qed

lemma handle_event_within:
  assumes "resolved (config g)" and "paddles_within g" and "\<not> is_resize (Input ev pos rnd)"
  shows "paddles_within (final (handle_event g ev pos rnd))
       \<and> config (final (handle_event g ev pos rnd)) = config g"
proof -
  have "handle_event g ev pos rnd = on_state_event g ev pos rnd"
    using assms(3) by (cases ev) (simp_all add: handle_event_def)
  then show ?thesis
    using on_state_event_within [OF assms(1,2)] by simp
qed

lemma update_config: "config (final (update g now rnd)) = config g"
proof (cases "state g = PLAYING \<and> \<not> waiting_for_reset g")
  case False
  then show ?thesis
    by (auto simp: update_def update_waiting_frame)
next
  case True
  show ?thesis
  proof (cases "player_paddle g")
    case None
    then show ?thesis using True by (simp add: update_def)
  next
    case (Some pp)
    let ?g1 = "g\<lparr>player_paddle := Some (Paddle_move pp (player_direction (keys_pressed g))
                     (SCREEN_HEIGHT (config g)))\<rparr>"
    have c1: "config (final (update_bot ?g1 rnd)) = config g"
      by (simp add: update_bot_frame)
    show ?thesis
      using True Some c1
      by (auto simp: update_def Let_def score_and_check_frame
          split: option.splits result.splits)
  qed
qed

lemma render_within:
  "paddles_within (final (render g)) = paddles_within g"
  "config (final (render g)) = config g"
  by (simp_all add: render_def paddles_within_def)

lemma step_within:
  assumes "resolved (config g)" and "paddles_within g" and "\<not> is_resize s"
  shows "resolved (config (final (step g s))) \<and> paddles_within (final (step g s))"
proof (cases s)
  case (Input ev pos rnd)
  then show ?thesis
    using assms handle_event_within [of g ev pos rnd] by auto
next
  case (Tick now rnd)
  then show ?thesis
    using assms update_within [of g now rnd] by (simp add: update_config)
next
  case Frame
  then show ?thesis
    using assms by (simp add: render_within)
qed

lemma transitions_within:
  assumes "resolved (config g)" and "paddles_within g" and "\<forall>s \<in> set steps. \<not> is_resize s"
  shows "\<forall>(g1, s, g2) \<in> set (transitions g steps). paddles_within g2"
  using assms
proof (induction steps arbitrary: g)
  case Nil
  then show ?case by simp
next
  case (Cons s steps)
  have w: "resolved (config (final (step g s))) \<and> paddles_within (final (step g s))"
    using Cons.prems by (intro step_within) auto
  show ?case
  proof (cases "step g s")
    case (Returned g')
    then show ?thesis
      using w Cons.IH [of g'] Cons.prems by simp
  next
    case (Raised e g')
    then show ?thesis
      using w by simp
  qed
qed

lemma init_within:
  "resolved (config (PongGame_init dt)) \<and> paddles_within (PongGame_init dt)"
  by (simp add: PongGame_init_def GameConfig_init_def resolved_update paddles_within_def Let_def)

section \<open>The opponent, the player input and the wait after a score\<close>

lemma bot_update_pending:
  "0 < reaction_delay bc \<Longrightarrow>
   BotController_update bc p b sh rnd =
     (bc\<lparr>reaction_delay := reaction_delay bc - 1\<rparr>,
      smooth_move_to p (target_y p) (smoothing_factor bc) sh)"
  by (simp add: BotController_update_def Let_def)

lemma bot_update_fresh:
  "\<not> 0 < reaction_delay bc \<Longrightarrow>
   BotController_update bc p b sh rnd =
     (bc\<lparr>reaction_delay :=
          random_randint (rnd (if random_random (rnd 0) > accuracy bc then 2 else 1)) 0
            (max_reaction_delay bc)\<rparr>,
      smooth_move_to p
        (y b - height p / 2
          + (if random_random (rnd 0) > accuracy bc
             then random_uniform (rnd 1)
                    (- (if difficulty bc = VERY_EASY then 60
                        else if difficulty bc = EASY then 30
                        else if difficulty bc = MEDIUM then 16 else 7))
                    (if difficulty bc = VERY_EASY then 60
                     else if difficulty bc = EASY then 30
                     else if difficulty bc = MEDIUM then 16 else 7)
             else 0))
        (smoothing_factor bc) sh)"
  by (simp add: BotController_update_def Let_def numeral_2_eq_2)

lemma smooth_move_to_target: "target_y (smooth_move_to p t s sh) = t"
  by (simp add: smooth_move_to_def Let_def)

lemma approach_target:
  "target_y (((\<lambda>q. smooth_move_to q t s sh) ^^ n) p) = (if n = 0 then target_y p else t)"
  by (cases n) (simp_all add: smooth_move_to_target)

lemma bot_run_pending:
  "int (length ticks) \<le> reaction_delay bc \<Longrightarrow>
   bot_run bc p sh ticks =
     (bc\<lparr>reaction_delay := reaction_delay bc - int (length ticks)\<rparr>,
      ((\<lambda>q. smooth_move_to q (target_y p) (smoothing_factor bc) sh) ^^ length ticks) p)"
proof (induction ticks arbitrary: bc p)
  case Nil
  then show ?case by simp
next
  case (Cons a ticks)
  obtain b rnd where a: "a = (b, rnd)" by (cases a)
  let ?bc = "bc\<lparr>reaction_delay := reaction_delay bc - 1\<rparr>"
  let ?p = "smooth_move_to p (target_y p) (smoothing_factor bc) sh"
  have pos: "0 < reaction_delay bc" using Cons.prems by simp
  have "int (length ticks) \<le> reaction_delay ?bc" using Cons.prems by simp
  then have "bot_run ?bc ?p sh ticks =
     (?bc\<lparr>reaction_delay := reaction_delay ?bc - int (length ticks)\<rparr>,
      ((\<lambda>q. smooth_move_to q (target_y ?p) (smoothing_factor ?bc) sh) ^^ length ticks) ?p)"
    by (rule Cons.IH)
  moreover have "((\<lambda>q. smooth_move_to q (target_y p) (smoothing_factor bc) sh) ^^ length ticks) ?p
      = ((\<lambda>q. smooth_move_to q (target_y p) (smoothing_factor bc) sh) ^^ Suc (length ticks)) p"
    by (simp only: funpow_Suc_right o_apply)
  ultimately show ?case
    using a pos
    by (simp add: bot_update_pending smooth_move_to_target algebra_simps del: funpow.simps)
qed

text \<open>
  Claim C9. Over any sequence of calls to \<open>BotController.update\<close> no longer than the
  pending reaction delay, each call only decrements the delay and moves the paddle
  smoothly toward the target it already had: the target stays the same, and neither the
  ball nor the module \<open>random\<close> is consulted. In the call where the delay is zero the
  target is computed afresh from the ball's height, perturbed by a draw of
  \<open>random.uniform\<close> when the draw of \<open>random.random\<close> exceeds the accuracy, and the new
  delay is what \<open>random.randint(0, max_reaction_delay)\<close> returns.
\<close>

theorem bot_reaction_delay:
  "(int (length ticks) \<le> reaction_delay bc \<longrightarrow>
      bot_run bc p sh ticks =
        (bc\<lparr>reaction_delay := reaction_delay bc - int (length ticks)\<rparr>,
         ((\<lambda>q. smooth_move_to q (target_y p) (smoothing_factor bc) sh) ^^ length ticks) p)
      \<and> target_y (snd (bot_run bc p sh ticks)) = target_y p)
   \<and> (reaction_delay bc = 0 \<longrightarrow>
        BotController_update bc p b sh rnd =
          (bc\<lparr>reaction_delay :=
               random_randint (rnd (if random_random (rnd 0) > accuracy bc then 2 else 1)) 0
                 (max_reaction_delay bc)\<rparr>,
           smooth_move_to p
             (y b - height p / 2
               + (if random_random (rnd 0) > accuracy bc
                  then random_uniform (rnd 1)
                         (- (if difficulty bc = VERY_EASY then 60
                             else if difficulty bc = EASY then 30
                             else if difficulty bc = MEDIUM then 16 else 7))
                         (if difficulty bc = VERY_EASY then 60
                          else if difficulty bc = EASY then 30
                          else if difficulty bc = MEDIUM then 16 else 7)
                  else 0))
             (smoothing_factor bc) sh))"
  by (simp add: bot_run_pending bot_update_fresh approach_target)

lemma player_direction_cases:
  "(''up'' \<in> keys \<and> ''down'' \<notin> keys \<longrightarrow> player_direction keys = - 1)
   \<and> (''down'' \<in> keys \<and> ''up'' \<notin> keys \<longrightarrow> player_direction keys = 1)
   \<and> (''up'' \<notin> keys \<and> ''down'' \<notin> keys \<longrightarrow> player_direction keys = 0)
   \<and> (''up'' \<in> keys \<and> ''down'' \<in> keys \<longrightarrow> player_direction keys = - 1)"
  by (simp add: player_direction_def)

text \<open>
  Claim C4, amended. The direction derived from the pressed keys is \<open>-1\<close> when only
  \<open>up\<close> is held, \<open>1\<close> when only \<open>down\<close> is held, \<open>0\<close> when neither is held, and
  \<open>-1\<close> when both are held, \<open>up\<close> taking precedence. In a tick while playing and not
  waiting after a score, the player's paddle is moved with that direction.
\<close>

theorem player_input_direction:
  "(''up'' \<in> keys \<and> ''down'' \<notin> keys \<longrightarrow> player_direction keys = - 1)
   \<and> (''down'' \<in> keys \<and> ''up'' \<notin> keys \<longrightarrow> player_direction keys = 1)
   \<and> (''up'' \<notin> keys \<and> ''down'' \<notin> keys \<longrightarrow> player_direction keys = 0)
   \<and> (''up'' \<in> keys \<and> ''down'' \<in> keys \<longrightarrow> player_direction keys = - 1)
   \<and> (state g = PLAYING \<and> \<not> waiting_for_reset g \<and> player_paddle g = Some pp \<longrightarrow>
        player_paddle (final (update g now rnd)) =
          Some (Paddle_move pp (player_direction (keys_pressed g))
                  (SCREEN_HEIGHT (config g))))"
  using player_direction_cases [of keys] update_active_player [of g pp now rnd]
  by blast

lemma park_ball_state:
  "waiting_for_reset (park_ball g b who now)"
  "reset_timer (park_ball g b who now) = now"
  "last_scorer (park_ball g b who now) = Some who"
  "ball (park_ball g b who now) =
     Some (b\<lparr>x := real_of_int (SCREEN_WIDTH (config g) div 2),
             y := real_of_int (SCREEN_HEIGHT (config g) div 2),
             velocity_x := 0, velocity_y := 0\<rparr>)"
  by (simp_all add: park_ball_def Let_def)

text \<open>
  A tick while playing with the wait flag set: before 2000 ms have elapsed
  the tick changes nothing, so the ball stays where the scoring tick parked it, with
  zero velocity; from 2000 ms on the ball is reset towards the centre of the paddle of
  the side that lost the point (to the left, where the player is, when the bot scored,
  to the right otherwise), with the horizontal speed \<open>base_speed\<close>, and the wait flag
  is cleared.
\<close>

theorem post_score_wait:
  assumes "state g = PLAYING" and "waiting_for_reset g"
  shows "(now - reset_timer g < 2000 \<longrightarrow> update g now rnd = Returned g)
    \<and> (now - reset_timer g \<ge> 2000 \<and> player_paddle g = Some pp \<and> bot_paddle g = Some bp
        \<and> ball g = Some b \<and> initial_x b \<noteq> 0 \<longrightarrow>
          update g now rnd =
            Returned (g\<lparr>ball := Some (b\<lparr>x := initial_x b, y := initial_y b,
               velocity_x :=
                 (if last_scorer g = Some ''bot'' then - base_speed b else base_speed b),
               velocity_y :=
                 ((if last_scorer g = Some ''bot'' then y pp + height pp / 2
                   else y bp + height bp / 2) - initial_y b)
                   / \<bar>initial_x b\<bar> * base_speed b * 0.6\<rparr>),
               waiting_for_reset := False\<rparr>)
          \<and> map_option Returned (ball (final (update g now rnd))) =
              Some (reset_position b (if last_scorer g = Some ''bot'' then - 1 else 1)
                      (Some (if last_scorer g = Some ''bot'' then y pp + height pp / 2
                             else y bp + height bp / 2)) rnd))"
  using assms
  by (auto simp: update_waiting_early update_waiting_relaunch reset_position_aimed)

section \<open>Concrete runs\<close>

lemma bot_scored_eq:
  "bot_scored =
     easy_match\<lparr>score_manager := \<lparr>player_score = 0, bot_score = 1, winning_score = 10\<rparr>,
       player_paddle :=
         Some \<lparr>x = 30, y = 500, width = 15, height = 100, speed = 7, velocity = 0,
               target_y = 250\<rparr>,
       ball :=
         Some \<lparr>x = 400, y = 300, width = 16, height = 16, radius = 8, base_speed = 7 / 2,
               velocity_x = 0, velocity_y = 0, initial_x = 400, initial_y = 300\<rparr>,
       reset_timer := 1000, waiting_for_reset := True, last_scorer := Some ''bot''\<rparr>"
  by (simp add: bot_scored_def player_at_def easy_match_eq park_ball_def
      increment_bot_score_def Let_def)

lemma resized_in_wait_eval:
  "state resized_in_wait = PLAYING"
  "waiting_for_reset resized_in_wait"
  "SCREEN_HEIGHT (config resized_in_wait) = 450"
  "player_paddle resized_in_wait =
     Some \<lparr>x = 30, y = 500, width = 15, height = 75, speed = 7, velocity = 0,
           target_y = 250\<rparr>"
  by (simp_all add: resized_in_wait_def bot_scored_eq easy_match_eq eval_defs)

text \<open>
  Claim C1 at a concrete resize. The two move methods keep the paddle inside the
  viewport, but the resize handler assigns \<open>y\<close> and \<open>height\<close> without their boundary
  check, from a ratio taken against the surface already replaced. After the bot
  scored, with the player's paddle at the bottom of an 800 by 600 window, the window is
  shrunk to 800 by 450; the tick that follows falls into the wait and moves nothing,
  and the paddle is left at \<open>y = 500\<close> with height 75 in a viewport of height 450. The
  ratio against the old height would put it at \<open>500 / 600 * 450 = 375\<close>, inside.
\<close>

theorem resize_leaves_paddle_outside:
  "SCREEN_HEIGHT (config bot_scored) = 600
   \<and> map_option (\<lambda>p. within_screen p 600) (player_paddle bot_scored) = Some True
   \<and> state resized_in_wait = PLAYING
   \<and> SCREEN_HEIGHT (config resized_in_wait) = 450
   \<and> player_paddle resized_in_wait =
       Some \<lparr>x = 30, y = 500, width = 15, height = 75, speed = 7, velocity = 0,
             target_y = 250\<rparr>
   \<and> map_option (\<lambda>p. within_screen p 450) (player_paddle resized_in_wait) = Some False"
  by (simp add: resized_in_wait_eval within_screen_def) (simp add: bot_scored_eq easy_match_eq)

lemma update_bot_returns:
  assumes "returns (update_bot g rnd)"
  shows "\<exists>bp t s. bot_paddle g = Some bp
           \<and> bot_paddle (final (update_bot g rnd))
               = Some (smooth_move_to bp t s (SCREEN_HEIGHT (config g)))"
  using assms
  by (auto simp: update_bot_def BotController_update_def Let_def case_prod_beta
      split: option.splits if_splits)

lemma update_active_bot:
  assumes "state g = PLAYING" and "\<not> waiting_for_reset g" and "returns (update g now rnd)"
  shows "\<exists>bp t s. bot_paddle g = Some bp
           \<and> bot_paddle (final (update g now rnd))
               = Some (smooth_move_to bp t s (SCREEN_HEIGHT (config g)))"
proof (cases "player_paddle g")
  case None
  then show ?thesis using assms by (simp add: update_def)
next
  case (Some pp)
  let ?g1 = "g\<lparr>player_paddle := Some (Paddle_move pp (player_direction (keys_pressed g))
                   (SCREEN_HEIGHT (config g)))\<rparr>"
  have r: "returns (update_bot ?g1 rnd)"
    using assms Some by (auto simp: update_def Let_def split: result.splits)
  obtain bp t s where b: "bot_paddle ?g1 = Some bp"
    "bot_paddle (final (update_bot ?g1 rnd))
       = Some (smooth_move_to bp t s (SCREEN_HEIGHT (config ?g1)))"
    using update_bot_returns [OF r] by blast
  have "bot_paddle (final (update g now rnd)) = bot_paddle (final (update_bot ?g1 rnd))"
    using assms Some
    by (auto simp: update_def Let_def score_and_check_frame
        split: result.splits option.splits)
  then show ?thesis
    using b by auto
qed

lemma update_active_restores:
  assumes "state g = PLAYING" and "\<not> waiting_for_reset g" and "returns (update g now rnd)"
    and "\<forall>p \<in> set_option (player_paddle g) \<union> set_option (bot_paddle g).
           height p \<le> real_of_int (SCREEN_HEIGHT (config g))"
  shows "paddles_within (final (update g now rnd))"
proof -
  obtain pp where pp: "player_paddle g = Some pp"
    using assms(1-3) by (cases "player_paddle g") (simp_all add: update_def)
  obtain bp t s where bp: "bot_paddle g = Some bp"
    "bot_paddle (final (update g now rnd))
       = Some (smooth_move_to bp t s (SCREEN_HEIGHT (config g)))"
    using update_active_bot [OF assms(1-3)] by blast
  have "player_paddle (final (update g now rnd))
          = Some (Paddle_move pp (player_direction (keys_pressed g)) (SCREEN_HEIGHT (config g)))"
    using assms(1,2) pp by (rule update_active_player)
  then show ?thesis
    using assms(4) pp bp
    by (simp add: paddles_within_def update_config paddle_move_within smooth_move_to_within)
qed

text \<open>
  What the code does keep. After every call to \<open>Paddle.move\<close> or
  \<open>Paddle.smooth_move_to\<close> on a paddle whose height is at most the viewport height,
  \<open>0 \<le> y \<le> viewport height - height\<close>. Every tick preserves this bound for both
  paddles, a tick that moves the paddles restores it, and it holds for both paddles
  after every step of every run from the initial game that contains no viewport
  resize.
\<close>

theorem paddle_bounds:
  "(height p \<le> real_of_int sh \<longrightarrow>
      0 \<le> y (Paddle_move p d sh)
      \<and> y (Paddle_move p d sh) \<le> real_of_int sh - height (Paddle_move p d sh)
      \<and> 0 \<le> y (smooth_move_to p t sm sh)
      \<and> y (smooth_move_to p t sm sh) \<le> real_of_int sh - height (smooth_move_to p t sm sh))
   \<and> (paddles_within g \<longrightarrow> paddles_within (final (update g now rnd)))
   \<and> ((\<forall>s \<in> set steps. \<not> is_resize s) \<longrightarrow>
        (\<forall>(g1, s, g2) \<in> set (transitions (PongGame_init dt) steps). paddles_within g2))"
  using paddle_move_within [of p sh d] smooth_move_to_within [of p sh t sm]
    update_within [of g now rnd]
    transitions_within [of "PongGame_init dt" steps] init_within [of dt]
  by (simp add: within_screen_def)

lemma run_to_match:
  "map (\<lambda>(g1, s, g2). map_option y (player_paddle g2))
     (transitions (PongGame_init (1920, 1080))
        [Frame, Input MOUSEBUTTONDOWN (400, 250) low_rnd,
         Input (KEYDOWN K_DOWN) (0, 0) low_rnd, Tick 16 low_rnd])
   = [None, Some 250, Some 250, Some 257]"
  by (simp add: init_eq eval_defs)

theorem paddle_bounds_witness:
  "height (edge_paddle\<lparr>y := 495\<rparr>) \<le> real_of_int 600
   \<and> y (Paddle_move (edge_paddle\<lparr>y := 495\<rparr>) 1 600) = 500
   \<and> y (smooth_move_to (edge_paddle\<lparr>y := 495\<rparr>) 900 0.5 600) = 500
   \<and> paddles_within bot_scored
   \<and> paddles_within (final (update bot_scored 3000 low_rnd))
   \<and> filter is_resize
        [Frame, Input MOUSEBUTTONDOWN (400, 250) low_rnd,
         Input (KEYDOWN K_DOWN) (0, 0) low_rnd, Tick 16 low_rnd] = []
   \<and> map (\<lambda>(g1, s, g2). map_option y (player_paddle g2))
       (transitions (PongGame_init (1920, 1080))
          [Frame, Input MOUSEBUTTONDOWN (400, 250) low_rnd,
           Input (KEYDOWN K_DOWN) (0, 0) low_rnd, Tick 16 low_rnd])
     = [None, Some 250, Some 250, Some 257]
   \<and> list_all (\<lambda>(g1, s, g2). paddles_within g2)
       (transitions (PongGame_init (1920, 1080))
          [Frame, Input MOUSEBUTTONDOWN (400, 250) low_rnd,
           Input (KEYDOWN K_DOWN) (0, 0) low_rnd, Tick 16 low_rnd])"
proof -
  let ?steps = "[Frame, Input MOUSEBUTTONDOWN (400, 250) low_rnd,
                 Input (KEYDOWN K_DOWN) (0, 0) low_rnd, Tick 16 low_rnd]"
  note T = paddle_bounds [of "edge_paddle\<lparr>y := 495\<rparr>" 600 1 900 "0.5" bot_scored 3000
              low_rnd ?steps "(1920, 1080)"]
  have w: "paddles_within bot_scored"
    by (simp add: paddles_within_def within_screen_def bot_scored_eq easy_match_eq)
  have n: "\<forall>s \<in> set ?steps. \<not> is_resize s"
    by simp
  have m: "y (Paddle_move (edge_paddle\<lparr>y := 495\<rparr>) 1 600) = 500"
    "y (smooth_move_to (edge_paddle\<lparr>y := 495\<rparr>) 900 0.5 600) = 500"
    "height (edge_paddle\<lparr>y := 495\<rparr>) \<le> real_of_int 600"
    by (simp_all add: edge_paddle_def Paddle_init_def Paddle_move_def smooth_move_to_def Let_def)
  have B: "paddles_within (final (update bot_scored 3000 low_rnd))"
    using T w by blast
  have C: "\<forall>(g1, s, g2) \<in> set (transitions (PongGame_init (1920, 1080)) ?steps). paddles_within g2"
    using T n by blast
  show ?thesis
    using w m B C run_to_match by (simp add: list_all_iff)
qed

text \<open>
  A resize event while playing, for a window of positive size: each paddle's \<open>y\<close> is
  divided by the new window height and multiplied by the new configured height, so it
  stays as it is for every height of at least 400; the ball's velocity is multiplied by
  the new configured width over 800.
\<close>

lemma resize_event_playing:
  assumes "state g = PLAYING" and "player_paddle g = Some pp" and "bot_paddle g = Some bp"
    and "ball g = Some b" and "0 < w" and "0 < h"
  shows "returns (handle_event g (VIDEORESIZE w h) pos rnd)"
    and "state (final (handle_event g (VIDEORESIZE w h) pos rnd)) = PLAYING"
    and "score_manager (final (handle_event g (VIDEORESIZE w h) pos rnd)) = score_manager g"
    and "map_option y (player_paddle (final (handle_event g (VIDEORESIZE w h) pos rnd)))
           = Some (y pp / real_of_int h * real_of_int (max h 400))"
    and "map_option y (bot_paddle (final (handle_event g (VIDEORESIZE w h) pos rnd)))
           = Some (y bp / real_of_int h * real_of_int (max h 400))"
    and "map_option velocity_x (ball (final (handle_event g (VIDEORESIZE w h) pos rnd)))
           = Some (velocity_x b * (real_of_int (max w 600) / 800))"
    and "map_option velocity_y (ball (final (handle_event g (VIDEORESIZE w h) pos rnd)))
           = Some (velocity_y b * (real_of_int (max w 600) / 800))"
proof -
  have nz: "ball_speed (get_difficulty_settings d) \<noteq> 0" for d
    by (cases d; cases "the d") (simp_all add: get_difficulty_settings_def)
  have e: "on_videoresize g w h = Returned (final (on_videoresize g w h))"
    using assms
    by (simp add: on_videoresize_def set_mode_def resize_game_objects_def get_height_def
        get_width_def Let_def)
  have s: "state (final (on_videoresize g w h)) = PLAYING"
    using assms(1) by (simp add: on_videoresize_frame)
  have h: "handle_event g (VIDEORESIZE w h) pos rnd = Returned (final (on_videoresize g w h))"
  proof (cases "on_videoresize g w h")
    case (Returned g')
    then show ?thesis
      using s by (simp add: handle_event_def on_state_event_def)
  next
    case (Raised err g')
    then show ?thesis
      using e by simp
  qed
  show "returns (handle_event g (VIDEORESIZE w h) pos rnd)"
    and "state (final (handle_event g (VIDEORESIZE w h) pos rnd)) = PLAYING"
    and "score_manager (final (handle_event g (VIDEORESIZE w h) pos rnd)) = score_manager g"
    using s by (simp_all add: h on_videoresize_frame)
  show "map_option y (player_paddle (final (handle_event g (VIDEORESIZE w h) pos rnd)))
           = Some (y pp / real_of_int h * real_of_int (max h 400))"
    and "map_option y (bot_paddle (final (handle_event g (VIDEORESIZE w h) pos rnd)))
           = Some (y bp / real_of_int h * real_of_int (max h 400))"
    using assms
    by (simp_all add: h on_videoresize_def set_mode_def resize_game_objects_def get_height_def
        get_width_def Let_def update_screen_size_eq)
  show "map_option velocity_x (ball (final (handle_event g (VIDEORESIZE w h) pos rnd)))
           = Some (velocity_x b * (real_of_int (max w 600) / 800))"
    and "map_option velocity_y (ball (final (handle_event g (VIDEORESIZE w h) pos rnd)))
           = Some (velocity_y b * (real_of_int (max w 600) / 800))"
    using assms
    by (simp_all add: h on_videoresize_def set_mode_def resize_game_objects_def get_height_def
        get_width_def Let_def update_screen_size_eq scale_speed_def nz)
qed

text \<open>
  Claim C3 at a concrete resize. The match is at 800 by 600 with the player's paddle
  at \<open>y = 240\<close>, a ratio of 0.4. After the resize to 1600 by 1200 the paddle is still at
  \<open>y = 240\<close>, not at \<open>0.4 * 1200\<close>, and the ball is still at \<open>x = 400\<close>: the ratios are
  taken against the surface that \<open>set_mode\<close> has already replaced. The ball's velocity
  is multiplied by the new width over 800, not by the ratio of the new to the old
  scaled speed: a second resize event of the same size leaves the base speed at 7 and
  doubles the velocity again. State and scores are unchanged.
\<close>

theorem resize_not_proportional:
  "state (player_at easy_match 240) = PLAYING
   \<and> screen (player_at easy_match 240) = (800, 600)
   \<and> map_option y (player_paddle (player_at easy_match 240)) = Some (0.4 * 600)
   \<and> screen resized_once = (1600, 1200)
   \<and> SCREEN_HEIGHT (config resized_once) = 1200
   \<and> map_option y (player_paddle resized_once) = Some 240
   \<and> map_option y (player_paddle resized_once) \<noteq> Some (0.4 * 1200)
   \<and> map_option x (ball (player_at easy_match 240)) = Some 400
   \<and> map_option x (ball resized_once) = Some 400
   \<and> map_option base_speed (ball (player_at easy_match 240)) = Some 3.5
   \<and> map_option velocity_x (ball (player_at easy_match 240)) = Some (- 3.5)
   \<and> map_option base_speed (ball resized_once) = Some 7
   \<and> map_option velocity_x (ball resized_once) = Some (- 7)
   \<and> map_option base_speed (ball resized_twice) = Some 7
   \<and> map_option velocity_x (ball resized_twice) = Some (- 14)
   \<and> state resized_twice = PLAYING
   \<and> score_manager resized_twice = score_manager easy_match"
  by (simp add: resized_twice_def resized_once_def player_at_def easy_match_eq eval_defs)

text \<open>
  Claim C4, as stated, fails when both keys are held: the test for \<open>up\<close> comes first,
  the direction is \<open>-1\<close> and the paddle moves up by its speed.
\<close>

theorem player_direction_counterexample:
  "''up'' \<in> {''up'', ''down''} \<and> ''down'' \<in> {''up'', ''down''}
   \<and> player_direction {''up'', ''down''} \<noteq> 0
   \<and> map_option y (player_paddle easy_match) = Some 250
   \<and> map_option y (player_paddle
        (final (update (easy_match\<lparr>keys_pressed := {''up'', ''down''}\<rparr>) 16 low_rnd)))
      = Some 243"
  by (simp add: easy_match_eq eval_defs)

theorem player_input_direction_witness:
  "player_direction {''up''} = - 1
   \<and> player_direction {''down''} = 1
   \<and> player_direction {} = 0
   \<and> player_direction {''up'', ''down''} = - 1
   \<and> state (easy_match\<lparr>keys_pressed := {''down''}\<rparr>) = PLAYING
   \<and> \<not> waiting_for_reset (easy_match\<lparr>keys_pressed := {''down''}\<rparr>)
   \<and> map_option y (player_paddle
        (final (update (easy_match\<lparr>keys_pressed := {''down''}\<rparr>) 16 low_rnd)))
      = Some 257"
proof -
  let ?g = "easy_match\<lparr>keys_pressed := {''down''}\<rparr>"
  let ?pp = "\<lparr>x = 30, y = 250, width = 15, height = 100, speed = 7, velocity = 0,
              target_y = 250\<rparr> :: Paddle"
  have g: "state ?g = PLAYING" "\<not> waiting_for_reset ?g" "player_paddle ?g = Some ?pp"
    "keys_pressed ?g = {''down''}" "SCREEN_HEIGHT (config ?g) = 600"
    by (simp_all add: easy_match_eq)
  have "player_paddle (final (update ?g 16 low_rnd)) =
          Some (Paddle_move ?pp (player_direction {''down''}) 600)"
    using player_input_direction [of "{''down''}" ?g ?pp 16 low_rnd] g by simp
  moreover have "player_direction {''down''} = 1"
    using player_input_direction [of "{''down''}" ?g ?pp 16 low_rnd] by simp
  moreover have "player_direction {''up''} = - 1" "player_direction {} = 0"
    "player_direction {''up'', ''down''} = - 1"
    using player_input_direction [of "{''up''}" ?g ?pp 16 low_rnd]
      player_input_direction [of "{}" ?g ?pp 16 low_rnd]
      player_input_direction [of "{''up'', ''down''}" ?g ?pp 16 low_rnd]
    by simp_all
  ultimately show ?thesis
    using g by (simp add: Paddle_move_def Let_def)
qed

theorem post_score_wait_witness:
  "state bot_scored = PLAYING \<and> waiting_for_reset bot_scored
   \<and> reset_timer bot_scored = 1000
   \<and> last_scorer bot_scored = Some ''bot''
   \<and> update bot_scored 1500 low_rnd = Returned bot_scored
   \<and> map_option velocity_x (ball bot_scored) = Some 0
   \<and> map_option velocity_y (ball bot_scored) = Some 0
   \<and> returns (update bot_scored 3000 low_rnd)
   \<and> \<not> waiting_for_reset (final (update bot_scored 3000 low_rnd))
   \<and> map_option x (ball (final (update bot_scored 3000 low_rnd))) = Some 400
   \<and> map_option y (ball (final (update bot_scored 3000 low_rnd))) = Some 300
   \<and> map_option velocity_x (ball (final (update bot_scored 3000 low_rnd))) = Some (- 3.5)
   \<and> map_option velocity_y (ball (final (update bot_scored 3000 low_rnd))) = Some 1.3125"
proof -
  let ?pp = "\<lparr>x = 30, y = 500, width = 15, height = 100, speed = 7, velocity = 0,
              target_y = 250\<rparr> :: Paddle"
  let ?bp = "\<lparr>x = 755, y = 250, width = 15, height = 100, speed = 11 / 5, velocity = 0,
              target_y = 250\<rparr> :: Paddle"
  let ?b = "\<lparr>x = 400, y = 300, width = 16, height = 16, radius = 8, base_speed = 7 / 2,
             velocity_x = 0, velocity_y = 0, initial_x = 400, initial_y = 300\<rparr> :: Ball"
  have g: "state bot_scored = PLAYING" "waiting_for_reset bot_scored"
    "reset_timer bot_scored = 1000" "last_scorer bot_scored = Some ''bot''"
    "player_paddle bot_scored = Some ?pp" "bot_paddle bot_scored = Some ?bp"
    "ball bot_scored = Some ?b"
    by (simp_all add: bot_scored_eq easy_match_eq)
  show ?thesis
    using g post_score_wait [OF g(1,2), of 1500 low_rnd ?pp ?bp ?b]
      post_score_wait [OF g(1,2), of 3000 low_rnd ?pp ?bp ?b]
    by simp
qed

theorem bot_reaction_delay_witness:
  "int (length [(edge_ball, low_rnd), (edge_ball, low_rnd)])
     \<le> reaction_delay ((BotController_init EASY)\<lparr>reaction_delay := 2\<rparr>)
   \<and> y (snd (bot_run ((BotController_init EASY)\<lparr>reaction_delay := 2\<rparr>)
        (edge_paddle\<lparr>target_y := 200\<rparr>) 600 [(edge_ball, low_rnd), (edge_ball, low_rnd)]))
      = 107.84
   \<and> target_y (snd (bot_run ((BotController_init EASY)\<lparr>reaction_delay := 2\<rparr>)
        (edge_paddle\<lparr>target_y := 200\<rparr>) 600 [(edge_ball, low_rnd), (edge_ball, low_rnd)]))
      = 200
   \<and> reaction_delay (fst (bot_run ((BotController_init EASY)\<lparr>reaction_delay := 2\<rparr>)
        (edge_paddle\<lparr>target_y := 200\<rparr>) 600 [(edge_ball, low_rnd), (edge_ball, low_rnd)]))
      = 0
   \<and> reaction_delay (BotController_init EASY) = 0
   \<and> target_y (snd (BotController_update (BotController_init EASY)
        (edge_paddle\<lparr>target_y := 200\<rparr>) edge_ball 600 low_rnd)) = 45
   \<and> reaction_delay (fst (BotController_update (BotController_init EASY)
        (edge_paddle\<lparr>target_y := 200\<rparr>) edge_ball 600 low_rnd))
      = random_randint (low_rnd 1) 0 14"
  using bot_reaction_delay [of "[(edge_ball, low_rnd), (edge_ball, low_rnd)]"
      "(BotController_init EASY)\<lparr>reaction_delay := 2\<rparr>" "edge_paddle\<lparr>target_y := 200\<rparr>"
      600 edge_ball low_rnd]
    bot_reaction_delay [of "[]" "BotController_init EASY" "edge_paddle\<lparr>target_y := 200\<rparr>"
      600 edge_ball low_rnd]
  by (simp add: BotController_init_def edge_paddle_def edge_ball_def Paddle_init_def
      Ball_init_def low_rnd_def smooth_move_to_def Let_def numeral_2_eq_2)

lemma enlarged_in_wait_eval:
  "state enlarged_in_wait = PLAYING"
  "waiting_for_reset enlarged_in_wait"
  "screen enlarged_in_wait = (1600, 1200)"
  "ball enlarged_in_wait =
     Some \<lparr>x = 400, y = 300, width = 16, height = 16, radius = 16, base_speed = 7,
           velocity_x = 0, velocity_y = 0, initial_x = 800, initial_y = 600\<rparr>"
  by (simp_all add: enlarged_in_wait_def bot_scored_eq easy_match_eq eval_defs)

text \<open>
  Claim C5 at a concrete resize. A tick in the wait changes nothing and a tick from
  2000 ms on relaunches the ball, as the claim says; but the ball does not always
  remain at home during the wait. After the bot scored at 800 by 600 the ball is parked
  at its home \<open>(400, 300)\<close> with zero velocity. The window is enlarged to 1600 by 1200:
  the resize handler moves the home to \<open>(800, 600)\<close> and, taking its ratios against the
  surface already replaced, leaves the ball at \<open>(400, 300)\<close>. The tick 500 ms into the
  wait moves nothing, so the ball waits away from home.
\<close>

theorem wait_after_resize_off_home:
  "state bot_scored = PLAYING
   \<and> waiting_for_reset bot_scored
   \<and> reset_timer bot_scored = 1000
   \<and> ball bot_scored =
       Some \<lparr>x = 400, y = 300, width = 16, height = 16, radius = 8, base_speed = 7 / 2,
             velocity_x = 0, velocity_y = 0, initial_x = 400, initial_y = 300\<rparr>
   \<and> state enlarged_in_wait = PLAYING
   \<and> waiting_for_reset enlarged_in_wait
   \<and> screen enlarged_in_wait = (1600, 1200)
   \<and> ball enlarged_in_wait =
       Some \<lparr>x = 400, y = 300, width = 16, height = 16, radius = 16, base_speed = 7,
             velocity_x = 0, velocity_y = 0, initial_x = 800, initial_y = 600\<rparr>
   \<and> map_option (\<lambda>b. x b = initial_x b \<and> y b = initial_y b) (ball enlarged_in_wait)
       = Some False"
  by (simp add: enlarged_in_wait_eval) (simp add: bot_scored_eq easy_match_eq)

end
